theory Spec2Isabelle
  imports Complex_Main
begin

section \<open>Text and values of the JavaScript runtime\<close>

text \<open>
  A JavaScript string is a sequence of UTF-16 code units; a code unit is modelled as a
  natural number. \<open>js\<close> turns an ASCII literal into such a string.
\<close>

type_synonym jsstring = "nat list"

abbreviation js :: "string \<Rightarrow> jsstring" where
  "js s \<equiv> map of_char s"

text \<open>\<^verbatim>\<open>s.startsWith(p)\<close> and \<^verbatim>\<open>s.includes(t)\<close>.\<close>

fun starts_with :: "jsstring \<Rightarrow> jsstring \<Rightarrow> bool" where
  "starts_with s [] = True"
| "starts_with [] (p # ps) = False"
| "starts_with (c # cs) (p # ps) = (c = p \<and> starts_with cs ps)"

fun includes_str :: "jsstring \<Rightarrow> jsstring \<Rightarrow> bool" where
  "includes_str [] t = (t = [])"
| "includes_str (c # cs) t = (starts_with (c # cs) t \<or> includes_str cs t)"

text \<open>\<^verbatim>\<open>s.substring(0, n)\<close> for a literal \<open>n\<close>.\<close>

definition substring0 :: "jsstring \<Rightarrow> nat \<Rightarrow> jsstring" where
  "substring0 s n = take n s"

text \<open>Decimal rendering of a number inside a template literal.\<close>

fun show_nat :: "nat \<Rightarrow> jsstring" where
  "show_nat n = (if n < 10 then [48 + n] else show_nat (n div 10) @ [48 + n mod 10])"

declare show_nat.simps [simp del]

definition show_int :: "int \<Rightarrow> jsstring" where
  "show_int i = (if i < 0 then 45 # show_nat (nat (- i)) else show_nat (nat i))"

text \<open>
  Values: what \<^verbatim>\<open>JSON.parse\<close> produces, what a request body carries, and
  \<^verbatim>\<open>undefined\<close>. A number is its exact value, where the runtime rounds it to an
  IEEE double. An object keeps its members in source order, a repeated key included,
  where the runtime keeps one member for it; reading a property finds the later member,
  as the runtime does.
\<close>

datatype jsval =
    JUndefined
  | JNull
  | JBool bool
  | JNum rat
  | JStr jsstring
  | JArr "jsval list"
  | JObj "(jsstring \<times> jsval) list"

subsection \<open>\<^verbatim>\<open>JSON.parse\<close>\<close>

text \<open>
  The JSON grammar of ECMA-404, as \<^verbatim>\<open>JSON.parse\<close> accepts it: a tokenizer
  followed by a pushdown recogniser that builds the value. \<open>None\<close> is the
  \<^verbatim>\<open>SyntaxError\<close>.
\<close>

datatype token = LBrace | RBrace | LBrack | RBrack | Colon | Comma | Scalar jsval

definition is_json_ws :: "nat \<Rightarrow> bool" where
  "is_json_ws c = (c = 9 \<or> c = 10 \<or> c = 13 \<or> c = 32)"

definition is_digit :: "nat \<Rightarrow> bool" where
  "is_digit c = (48 \<le> c \<and> c \<le> 57)"

definition hexval :: "nat \<Rightarrow> nat option" where
  "hexval c =
     (if 48 \<le> c \<and> c \<le> 57 then Some (c - 48)
      else if 65 \<le> c \<and> c \<le> 70 then Some (c - 55)
      else if 97 \<le> c \<and> c \<le> 102 then Some (c - 87)
      else None)"

text \<open>The character after a backslash: \<^verbatim>\<open>" \ / b f n r t\<close>.\<close>

definition unescape :: "nat \<Rightarrow> nat option" where
  "unescape e =
     (if e = 34 then Some 34
      else if e = 92 then Some 92
      else if e = 47 then Some 47
      else if e = 98 then Some 8
      else if e = 102 then Some 12
      else if e = 110 then Some 10
      else if e = 114 then Some 13
      else if e = 116 then Some 9
      else None)"

definition hex4 :: "nat \<Rightarrow> nat \<Rightarrow> nat \<Rightarrow> nat \<Rightarrow> nat option" where
  "hex4 h1 h2 h3 h4 =
     (case (hexval h1, hexval h2, hexval h3, hexval h4) of
        (Some a, Some b, Some c, Some d) \<Rightarrow> Some (((a * 16 + b) * 16 + c) * 16 + d)
      | _ \<Rightarrow> None)"

text \<open>
  \<open>scan_string\<close> reads a string body after its opening quote and returns the decoded
  text with the number of code units read, closing quote included.
\<close>

fun scan_string :: "jsstring \<Rightarrow> (jsstring \<times> nat) option" where
  "scan_string [] = None"
| "scan_string (c # cs) =
     (if c = 34 then Some ([], 1)
      else if c = 92 then
        (case cs of
           [] \<Rightarrow> None
         | e # r \<Rightarrow>
             if e = 117 then
               (case r of
                  h1 # h2 # h3 # h4 # r' \<Rightarrow>
                    (case hex4 h1 h2 h3 h4 of
                       None \<Rightarrow> None
                     | Some u \<Rightarrow> map_option (\<lambda>(s, n). (u # s, n + 6)) (scan_string r'))
                | _ \<Rightarrow> None)
             else
               (case unescape e of
                  None \<Rightarrow> None
                | Some x \<Rightarrow> map_option (\<lambda>(s, n). (x # s, n + 2)) (scan_string r)))
      else if c < 32 then None
      else map_option (\<lambda>(s, n). (c # s, Suc n)) (scan_string cs))"

definition digits_val :: "jsstring \<Rightarrow> nat" where
  "digits_val ds = foldl (\<lambda>a d. 10 * a + (d - 48)) 0 ds"

text \<open>
  \<open>scan_number\<close> reads the longest number
  \<^verbatim>\<open>-?(0|[1-9][0-9]*)(\.[0-9]+)?([eE][+-]?[0-9]+)?\<close> at the front of the text and
  returns its value with the number of code units read. An integer part with a leading
  zero is refused at once: the digit left over would be a second value, which no JSON
  text allows.
\<close>

definition scan_exponent :: "jsstring \<Rightarrow> bool \<times> jsstring \<times> nat" where
  "scan_exponent s =
     (case s of
        [] \<Rightarrow> (False, [], 0)
      | e # r \<Rightarrow>
          if e = 101 \<or> e = 69 then
            (case r of
               [] \<Rightarrow> (False, [], 0)
             | g # r' \<Rightarrow>
                 if g = 43 \<or> g = 45 then
                   (let ds = takeWhile is_digit r'
                    in if ds = [] then (False, [], 0) else (g = 45, ds, 2 + length ds))
                 else
                   (let ds = takeWhile is_digit r
                    in if ds = [] then (False, [], 0) else (False, ds, 1 + length ds)))
          else (False, [], 0))"

definition scan_number :: "jsstring \<Rightarrow> (rat \<times> nat) option" where
  "scan_number s =
     (let neg = (s \<noteq> [] \<and> hd s = 45);
          s1 = (if neg then tl s else s);
          ip = takeWhile is_digit s1
      in if ip = [] \<or> (1 < length ip \<and> hd ip = 48) then None
         else
           (let s2 = drop (length ip) s1;
                fp = (case s2 of [] \<Rightarrow> [] | d # r \<Rightarrow> if d = 46 then takeWhile is_digit r else []);
                s3 = (if fp = [] then s2 else drop (Suc (length fp)) s2);
                (eneg, ep, en) = scan_exponent s3;
                m = (of_nat (digits_val (ip @ fp)) :: rat) / 10 ^ length fp;
                q = (if eneg then m / 10 ^ digits_val ep else m * 10 ^ digits_val ep)
            in Some (if neg then - q else q,
                     (if neg then 1 else 0) + length ip
                       + (if fp = [] then 0 else Suc (length fp)) + en)))"

fun tokenize :: "jsstring \<Rightarrow> token list option" where
  "tokenize [] = Some []"
| "tokenize (c # cs) =
     (if is_json_ws c then tokenize cs
      else if c = 123 then map_option ((#) LBrace) (tokenize cs)
      else if c = 125 then map_option ((#) RBrace) (tokenize cs)
      else if c = 91 then map_option ((#) LBrack) (tokenize cs)
      else if c = 93 then map_option ((#) RBrack) (tokenize cs)
      else if c = 58 then map_option ((#) Colon) (tokenize cs)
      else if c = 44 then map_option ((#) Comma) (tokenize cs)
      else if c = 34 then
        (case scan_string cs of
           None \<Rightarrow> None
         | Some (str, n) \<Rightarrow> map_option ((#) (Scalar (JStr str))) (tokenize (drop n cs)))
      else if c = 45 \<or> is_digit c then
        (case scan_number (c # cs) of
           None \<Rightarrow> None
         | Some (q, n) \<Rightarrow> map_option ((#) (Scalar (JNum q))) (tokenize (drop (n - 1) cs)))
      else if starts_with (c # cs) (js ''true'') then
        map_option ((#) (Scalar (JBool True))) (tokenize (drop 3 cs))
      else if starts_with (c # cs) (js ''false'') then
        map_option ((#) (Scalar (JBool False))) (tokenize (drop 4 cs))
      else if starts_with (c # cs) (js ''null'') then
        map_option ((#) (Scalar JNull)) (tokenize (drop 3 cs))
      else None)"

text \<open>
  The recogniser keeps a stack of open containers. A frame holds the elements or members
  read so far, latest first; an object frame also holds the key whose value is awaited.
\<close>

datatype frame = ArrF "jsval list" | ObjF "(jsstring \<times> jsval) list" "jsstring option"

datatype expect =
    Value
  | ValueOrEnd
  | KeyOrEnd
  | Key
  | ColonE
  | CommaOrEnd
  | Finished jsval

fun reduce :: "jsval \<Rightarrow> frame list \<Rightarrow> (expect \<times> frame list) option" where
  "reduce v [] = Some (Finished v, [])"
| "reduce v (ArrF xs # st) = Some (CommaOrEnd, ArrF (v # xs) # st)"
| "reduce v (ObjF ms (Some k) # st) = Some (CommaOrEnd, ObjF ((k, v) # ms) None # st)"
| "reduce v (ObjF ms None # st) = None"

fun open_value :: "token \<Rightarrow> frame list \<Rightarrow> (expect \<times> frame list) option" where
  "open_value (Scalar v) st = reduce v st"
| "open_value LBrack st = Some (ValueOrEnd, ArrF [] # st)"
| "open_value LBrace st = Some (KeyOrEnd, ObjF [] None # st)"
| "open_value _ st = None"

fun close_array :: "frame list \<Rightarrow> (expect \<times> frame list) option" where
  "close_array (ArrF xs # st) = reduce (JArr (rev xs)) st"
| "close_array _ = None"

fun close_object :: "frame list \<Rightarrow> (expect \<times> frame list) option" where
  "close_object (ObjF ms None # st) = reduce (JObj (rev ms)) st"
| "close_object _ = None"

fun read_key :: "token \<Rightarrow> frame list \<Rightarrow> (expect \<times> frame list) option" where
  "read_key (Scalar (JStr k)) (ObjF ms None # st) = Some (ColonE, ObjF ms (Some k) # st)"
| "read_key _ _ = None"

fun after_comma :: "frame list \<Rightarrow> (expect \<times> frame list) option" where
  "after_comma (ArrF xs # st) = Some (Value, ArrF xs # st)"
| "after_comma (ObjF ms None # st) = Some (Key, ObjF ms None # st)"
| "after_comma _ = None"

fun step :: "expect \<Rightarrow> frame list \<Rightarrow> token \<Rightarrow> (expect \<times> frame list) option" where
  "step Value st t = open_value t st"
| "step ValueOrEnd st t = (if t = RBrack then close_array st else open_value t st)"
| "step KeyOrEnd st t = (if t = RBrace then close_object st else read_key t st)"
| "step Key st t = read_key t st"
| "step ColonE st t = (if t = Colon then Some (Value, st) else None)"
| "step CommaOrEnd st t =
     (if t = Comma then after_comma st
      else if t = RBrack then close_array st
      else if t = RBrace then close_object st
      else None)"
| "step (Finished v) st t = None"

fun run_tokens :: "expect \<Rightarrow> frame list \<Rightarrow> token list \<Rightarrow> jsval option" where
  "run_tokens e st [] = (case e of Finished v \<Rightarrow> (if st = [] then Some v else None) | _ \<Rightarrow> None)"
| "run_tokens e st (t # ts) =
     (case step e st t of None \<Rightarrow> None | Some (e', st') \<Rightarrow> run_tokens e' st' ts)"

definition JSON_parse :: "jsstring \<Rightarrow> jsval option" where
  "JSON_parse s = (case tokenize s of None \<Rightarrow> None | Some ts \<Rightarrow> run_tokens Value [] ts)"

subsection \<open>Property access and the operators the source uses\<close>

definition own_property :: "(jsstring \<times> jsval) list \<Rightarrow> jsstring \<Rightarrow> jsval" where
  "own_property ms k = (case map_of (rev ms) k of None \<Rightarrow> JUndefined | Some v \<Rightarrow> v)"

text \<open>
  \<^verbatim>\<open>v.k\<close>, for the property names the source reads (\<^verbatim>\<open>findings\<close>,
  \<^verbatim>\<open>safe_actions\<close>, \<^verbatim>\<open>length\<close>, ...): none of them is inherited from a prototype,
  apart from the \<^verbatim>\<open>length\<close> of arrays and strings. \<open>None\<close> is the
  \<^verbatim>\<open>TypeError\<close> of reading a property of \<^verbatim>\<open>null\<close> or \<^verbatim>\<open>undefined\<close>.
\<close>

fun member :: "jsval \<Rightarrow> jsstring \<Rightarrow> jsval option" where
  "member JUndefined k = None"
| "member JNull k = None"
| "member (JObj ms) k = Some (own_property ms k)"
| "member (JArr xs) k = Some (if k = js ''length'' then JNum (of_nat (length xs)) else JUndefined)"
| "member (JStr s) k = Some (if k = js ''length'' then JNum (of_nat (length s)) else JUndefined)"
| "member (JBool b) k = Some JUndefined"
| "member (JNum q) k = Some JUndefined"

text \<open>\<^verbatim>\<open>v?.k\<close>\<close>

definition opt_member :: "jsval \<Rightarrow> jsstring \<Rightarrow> jsval" where
  "opt_member v k = (case member v k of None \<Rightarrow> JUndefined | Some x \<Rightarrow> x)"

fun truthy :: "jsval \<Rightarrow> bool" where
  "truthy JUndefined = False"
| "truthy JNull = False"
| "truthy (JBool b) = b"
| "truthy (JNum q) = (q \<noteq> 0)"
| "truthy (JStr s) = (s \<noteq> [])"
| "truthy (JArr xs) = True"
| "truthy (JObj ms) = True"

text \<open>\<^verbatim>\<open>a || b\<close>\<close>

definition or_else :: "jsval \<Rightarrow> jsval \<Rightarrow> jsval" where
  "or_else a b = (if truthy a then a else b)"

text \<open>
  \<^verbatim>\<open>v > 0\<close>. For a string, an array or an object the runtime converts the operand to a
  number first (or throws \<^verbatim>\<open>TypeError\<close>); that conversion is the parameter
  \<open>coerce\<close>, with \<open>None\<close> for the exception.
\<close>

fun greater_zero :: "(jsval \<Rightarrow> bool option) \<Rightarrow> jsval \<Rightarrow> bool option" where
  "greater_zero coerce JUndefined = Some False"
| "greater_zero coerce JNull = Some False"
| "greater_zero coerce (JBool b) = Some b"
| "greater_zero coerce (JNum q) = Some (0 < q)"
| "greater_zero coerce v = coerce v"

text \<open>A string or \<^verbatim>\<open>undefined\<close> inside a template literal.\<close>

fun template :: "jsstring option \<Rightarrow> jsstring" where
  "template None = js ''undefined''"
| "template (Some s) = s"

text \<open>\<^verbatim>\<open>!v\<close> for a request field that is a string or absent.\<close>

fun absent :: "jsstring option \<Rightarrow> bool" where
  "absent None = True"
| "absent (Some s) = (s = [])"

subsection \<open>The regular expressions of the source\<close>

text \<open>The classes \<^verbatim>\<open>\s\<close> and (negated) \<^verbatim>\<open>.\<close> of ECMAScript.\<close>

definition is_space :: "nat \<Rightarrow> bool" where
  "is_space c =
     ((9 \<le> c \<and> c \<le> 13) \<or> c = 32 \<or> c = 160 \<or> c = 5760 \<or> (8192 \<le> c \<and> c \<le> 8202)
      \<or> c = 8232 \<or> c = 8233 \<or> c = 8239 \<or> c = 8287 \<or> c = 12288 \<or> c = 65279)"

definition is_line_terminator :: "nat \<Rightarrow> bool" where
  "is_line_terminator c = (c = 10 \<or> c = 13 \<or> c = 8232 \<or> c = 8233)"

text \<open>\<^verbatim>\<open>(.+)\<close> at the front of the text: the rest of the line, which must not be empty.\<close>

definition dots :: "jsstring \<Rightarrow> jsstring option" where
  "dots r =
     (case r of
        [] \<Rightarrow> None
      | c # cs \<Rightarrow>
          if is_line_terminator c then None
          else Some (takeWhile (\<lambda>x. \<not> is_line_terminator x) r))"

text \<open>
  \<^verbatim>\<open>\s*(.+)\<close> at the front of the text. The white space is greedy, so the longest run
  is tried first; when nothing is left for the group, the matcher gives white space
  back, one code unit at a time.
\<close>

fun ws_then_dots :: "jsstring \<Rightarrow> jsstring option" where
  "ws_then_dots [] = None"
| "ws_then_dots (c # cs) =
     (if is_space c then
        (case ws_then_dots cs of
           Some g \<Rightarrow> Some g
         | None \<Rightarrow> dots (c # cs))
      else dots (c # cs))"

text \<open>\<^verbatim>\<open>[\s\S]*\}\<close> at the front of the text: everything up to the last closing brace.\<close>

definition upto_last_brace :: "jsstring \<Rightarrow> jsstring option" where
  "upto_last_brace r =
     (if 125 \<in> set r then Some (rev (dropWhile (\<lambda>x. x \<noteq> 125) (rev r))) else None)"

text \<open>\<^verbatim>\<open>\s*(\{[\s\S]*\})\<close> at the front of the text.\<close>

definition ws_then_braces :: "jsstring \<Rightarrow> jsstring option" where
  "ws_then_braces r =
     (case dropWhile is_space r of
        [] \<Rightarrow> None
      | c # cs \<Rightarrow> if c = 123 then map_option ((#) 123) (upto_last_brace cs) else None)"

text \<open>
  A pattern that starts with the literal \<open>lit\<close>: the leftmost position where \<open>lit\<close>
  occurs and \<open>rest\<close> matches behind it; the result is what \<open>rest\<close> captured.
\<close>

fun match_after :: "jsstring \<Rightarrow> (jsstring \<Rightarrow> jsstring option) \<Rightarrow> jsstring \<Rightarrow> jsstring option" where
  "match_after lit rest [] = (if lit = [] then rest [] else None)"
| "match_after lit rest (c # cs) =
     (case (if starts_with (c # cs) lit then rest (drop (length lit) (c # cs)) else None) of
        Some g \<Rightarrow> Some g
      | None \<Rightarrow> match_after lit rest cs)"

text \<open>\<^verbatim>\<open>/ENHANCED_ANALYSIS_JSON:\s*(.+)/\<close>, group 1\<close>

definition enhancedMatch :: "jsstring \<Rightarrow> jsstring option" where
  "enhancedMatch output = match_after (js ''ENHANCED_ANALYSIS_JSON:'') ws_then_dots output"

text \<open>\<^verbatim>\<open>/JSON_OUTPUT:\s*(.+)/\<close>, group 1\<close>

definition regularMatch :: "jsstring \<Rightarrow> jsstring option" where
  "regularMatch output = match_after (js ''JSON_OUTPUT:'') ws_then_dots output"

text \<open>\<^verbatim>\<open>/\{[\s\S]*\}/\<close>, the whole match\<close>

definition jsonPattern :: "jsstring \<Rightarrow> jsstring option" where
  "jsonPattern output = map_option ((#) 123) (match_after [123] upto_last_brace output)"

text \<open>\<^verbatim>\<open>/EXECUTION_RESULTS_JSON: (.+)/\<close>, group 1\<close>

definition executionMatch :: "jsstring \<Rightarrow> jsstring option" where
  "executionMatch output = match_after (js ''EXECUTION_RESULTS_JSON: '') dots output"

text \<open>\<^verbatim>\<open>/ENHANCED_ANALYSIS_JSON:\s*(\{[\s\S]*\})/\<close>, group 1 (the V3 revision)\<close>

definition enhancedMatch_v3 :: "jsstring \<Rightarrow> jsstring option" where
  "enhancedMatch_v3 output = match_after (js ''ENHANCED_ANALYSIS_JSON:'') ws_then_braces output"

text \<open>\<^verbatim>\<open>/EXECUTION_RESULTS_JSON:\s*(\{[\s\S]*\})/\<close>, group 1 (the V3 revision)\<close>

definition executionMatch_v3 :: "jsstring \<Rightarrow> jsstring option" where
  "executionMatch_v3 output = match_after (js ''EXECUTION_RESULTS_JSON:'') ws_then_braces output"

text \<open>\<^verbatim>\<open>/No module named '([^']+)'/\<close>, group 1\<close>

definition quoted_name :: "jsstring \<Rightarrow> jsstring option" where
  "quoted_name r =
     (let name = takeWhile (\<lambda>x. x \<noteq> 39) r
      in if name \<noteq> [] \<and> drop (length name) r \<noteq> [] then Some name else None)"

definition missingModule :: "jsstring \<Rightarrow> jsstring option" where
  "missingModule error = match_after (js ''No module named '' @ [39]) quoted_name error"

text \<open>\<^verbatim>\<open>canvasUrl.replace(/^https?:\/\//, '')\<close>\<close>

definition strip_scheme :: "jsstring \<Rightarrow> jsstring" where
  "strip_scheme u =
     (if starts_with u (js ''https://'') then drop 8 u
      else if starts_with u (js ''http://'') then drop 7 u
      else u)"

section \<open>The host: environment, file system, child process\<close>

text \<open>
  \<^verbatim>\<open>path.join\<close> and \<^verbatim>\<open>path.dirname\<close> as Node has them on a POSIX host (the
  orchestrator runs in a Linux container). \<^verbatim>\<open>path.join\<close> puts a slash between the
  arguments that are not empty and normalises the result: \<open>split_path\<close> cuts the text at
  its slashes, \<open>normalizeString\<close> walks the segments, dropping the empty ones and
  \<^verbatim>\<open>.\<close>, and letting \<^verbatim>\<open>..\<close> take the segment before it away (above the start of a
  relative path it stays; above the root it is dropped). \<open>res\<close> is the result so far,
  last segment first.
\<close>

fun split_path :: "jsstring \<Rightarrow> jsstring list" where
  "split_path [] = [[]]"
| "split_path (c # cs) =
     (if c = 47 then [] # split_path cs
      else (case split_path cs of [] \<Rightarrow> [[c]] | s # ss \<Rightarrow> (c # s) # ss))"

fun join_segments :: "jsstring list \<Rightarrow> jsstring" where
  "join_segments [] = []"
| "join_segments [p] = p"
| "join_segments (p # ps) = p @ [47] @ join_segments ps"

fun normalizeString :: "bool \<Rightarrow> jsstring list \<Rightarrow> jsstring list \<Rightarrow> jsstring list" where
  "normalizeString allowAboveRoot res [] = rev res"
| "normalizeString allowAboveRoot res (s # ss) =
     (if s = [] \<or> s = js ''.'' then normalizeString allowAboveRoot res ss
      else if s = js ''..'' then
        (if res \<noteq> [] \<and> hd res \<noteq> js ''..'' then normalizeString allowAboveRoot (tl res) ss
         else if allowAboveRoot then normalizeString allowAboveRoot (s # res) ss
         else normalizeString allowAboveRoot res ss)
      else normalizeString allowAboveRoot (s # res) ss)"

definition path_normalize :: "jsstring \<Rightarrow> jsstring" where
  "path_normalize p =
     (if p = [] then js ''.''
      else
        (let isAbsolute = (hd p = 47);
             trailingSeparator = (last p = 47);
             q = join_segments (normalizeString (\<not> isAbsolute) [] (split_path p))
         in if q = [] then
              (if isAbsolute then js ''/'' else if trailingSeparator then js ''./'' else js ''.'')
            else (if isAbsolute then [47] else []) @ q
                 @ (if trailingSeparator then [47] else [])))"

definition path_join :: "jsstring list \<Rightarrow> jsstring" where
  "path_join ps =
     (let joined = join_segments (filter (\<lambda>p. p \<noteq> []) ps)
      in if joined = [] then js ''.'' else path_normalize joined)"

text \<open>
  \<^verbatim>\<open>path.dirname\<close>: the text before the last slash that has a segment behind it, the
  slashes at the end of the path aside; \<open>r\<close> is that text with its slash, reversed. A
  slash at index 0 is the root.
\<close>

definition path_dirname :: "jsstring \<Rightarrow> jsstring" where
  "path_dirname p =
     (let r = dropWhile (\<lambda>c. c \<noteq> 47) (dropWhile (\<lambda>c. c = 47) (rev p))
      in if length r \<le> 1 then (if p \<noteq> [] \<and> hd p = 47 then js ''/'' else js ''.'')
         else if length r = 2 \<and> hd p = 47 then js ''//''
         else rev (tl r))"

text \<open>
  A file holds either the text \<^verbatim>\<open>JSON.stringify(v, null, 2)\<close> of a value \<open>v\<close> or
  anything else (a worker script). \<open>pinned\<close> are the paths the operating system refuses
  to remove, \<open>refused\<close> the paths it refuses to create or to write (no permission, a
  read-only or full file system, a regular file where a directory of the path should be).
\<close>

datatype content = Stringified jsval | Other

record filesys =
  files :: "jsstring \<Rightarrow> content option"
  dirs :: "jsstring set"
  pinned :: "jsstring set"
  refused :: "jsstring set"

definition existsSync :: "filesys \<Rightarrow> jsstring \<Rightarrow> bool" where
  "existsSync d p = (p \<in> dirs d \<or> files d p \<noteq> None)"

text \<open>
  \<^verbatim>\<open>fs.mkdirSync(p, { recursive: true })\<close>; \<open>None\<close> when it throws. A directory that is
  there already is left alone; a regular file of that name makes the call throw. (The
  call creates the missing directories above \<open>p\<close> as well; they are not recorded, as the
  orchestrator never reads them.)
\<close>

definition mkdirSync :: "jsstring \<Rightarrow> filesys \<Rightarrow> filesys option" where
  "mkdirSync p d =
     (if p \<in> dirs d then Some d
      else if p \<in> refused d \<or> files d p \<noteq> None then None
      else Some (d\<lparr>dirs := insert p (dirs d)\<rparr>))"

text \<open>
  \<^verbatim>\<open>fs.writeFileSync(p, text)\<close>; \<open>None\<close> when it throws: the path is a directory, the
  operating system refuses it, or the directory it lies in does not exist (that covers a
  regular file in the place of that directory).
\<close>

definition writeFileSync :: "jsstring \<Rightarrow> content \<Rightarrow> filesys \<Rightarrow> filesys option" where
  "writeFileSync p c d =
     (if p \<in> dirs d \<or> p \<in> refused d \<or> path_dirname p \<notin> dirs d then None
      else Some (d\<lparr>files := (files d)(p \<mapsto> c)\<rparr>))"

text \<open>\<^verbatim>\<open>fs.unlinkSync\<close>; \<open>None\<close> when it throws.\<close>

definition unlinkSync :: "jsstring \<Rightarrow> filesys \<Rightarrow> filesys option" where
  "unlinkSync p d =
     (if files d p = None \<or> p \<in> pinned d then None
      else Some (d\<lparr>files := (files d)(p := None)\<rparr>))"

text \<open>
  Exceptions of the runtime, and what a promise is rejected with. The message text of a
  runtime exception is the engine's (\<open>message_of\<close> below). \<open>SystemError\<close> is what the
  \<^verbatim>\<open>fs\<close> functions throw when the operating system refuses a call: an \<^verbatim>\<open>Error\<close> that
  carries the error code.
\<close>

datatype exn = SyntaxError | TypeError | SystemError

datatype error = Error jsstring | Raised exn

datatype promise = Pending | Resolved jsval | Rejected error

text \<open>Only the first \<^verbatim>\<open>resolve\<close> or \<^verbatim>\<open>reject\<close> settles a promise.\<close>

fun settle :: "promise \<Rightarrow> promise \<Rightarrow> promise" where
  "settle Pending q = q"
| "settle p q = p"

record host =
  CANVAS_URL :: "jsstring option"
  CANVAS_API_TOKEN :: "jsstring option"
  dirname :: jsstring
  clock :: nat
  timestamp :: jsstring
  disk :: filesys
  coerce :: "jsval \<Rightarrow> bool option"
  message_of :: "exn \<Rightarrow> jsstring"

text \<open>
  \<open>CANVAS_URL\<close> and \<open>CANVAS_API_TOKEN\<close> are the variables of \<^verbatim>\<open>process.env\<close>,
  \<open>dirname\<close> is \<^verbatim>\<open>__dirname\<close>, \<open>clock\<close> is \<^verbatim>\<open>Date.now()\<close>, \<open>timestamp\<close> is
  \<^verbatim>\<open>new Date().toISOString()\<close>.

  \<^verbatim>\<open>process.env.X || d\<close>:
\<close>

fun env_or :: "jsstring option \<Rightarrow> jsstring \<Rightarrow> jsstring" where
  "env_or None d = d"
| "env_or (Some s) d = (if s = [] then d else s)"

definition error_message :: "host \<Rightarrow> error \<Rightarrow> jsstring" where
  "error_message h e = (case e of Error m \<Rightarrow> m | Raised x \<Rightarrow> message_of h x)"

definition error_type :: "error \<Rightarrow> jsstring" where
  "error_type e =
     (case e of
        Error m \<Rightarrow> js ''Error''
      | Raised SyntaxError \<Rightarrow> js ''SyntaxError''
      | Raised TypeError \<Rightarrow> js ''TypeError''
      | Raised SystemError \<Rightarrow> js ''Error'')"

text \<open>
  What the spawned \<^verbatim>\<open>python3\<close> does, as the events its \<^verbatim>\<open>ChildProcess\<close> emits.
  \<^item> \<open>Closes code out err\<close>: \<^verbatim>\<open>'close'\<close> arrives within 300000 ms of the spawn, with the
    exit code (\<open>None\<close> is \<^verbatim>\<open>null\<close>: killed by a signal) and all of stdout and stderr.
  \<^item> \<open>SpawnFails code msg\<close>: the process cannot be started and \<^verbatim>\<open>'error'\<close> is emitted
    with \<^verbatim>\<open>spawnError.code\<close> and \<^verbatim>\<open>spawnError.message\<close>. An emitter without a
    listener for \<^verbatim>\<open>'error'\<close> throws the error instead, and \<^verbatim>\<open>'close'\<close> is not emitted.
    (Where a listener takes the \<^verbatim>\<open>'error'\<close>, a \<^verbatim>\<open>'close'\<close> that follows finds the
    promise settled and the timer cleared; it is left out.)
  \<^item> \<open>Overruns out err later\<close>: 300000 ms after the spawn the process is still running,
    having written \<open>out\<close> and \<open>err\<close>; \<open>later\<close> is the \<^verbatim>\<open>'close'\<close> that follows, with
    the further output, or \<open>None\<close> when the process never closes.
\<close>

datatype child =
    Closes "int option" jsstring jsstring
  | SpawnFails jsstring jsstring
  | Overruns jsstring jsstring "(int option \<times> jsstring \<times> jsstring) option"

text \<open>What a call does besides settling its promise, in program order.\<close>

datatype effect =
    SetTimeout nat
  | ClearTimeout
  | Spawn jsstring "jsstring option list"
  | Kill jsstring
  | MkdirSync jsstring
  | WriteFileSync jsstring
  | UnlinkSync jsstring
  | Warn jsstring
  | UncaughtError

record run =
  settled :: promise
  effects :: "effect list"
  disk_after :: filesys

definition is_spawn :: "effect \<Rightarrow> bool" where
  "is_spawn e = (case e of Spawn c a \<Rightarrow> True | _ \<Rightarrow> False)"

definition spawned :: "run \<Rightarrow> bool" where
  "spawned r = list_ex is_spawn (effects r)"

text \<open>\<^verbatim>\<open>${code}\<close> for an exit code.\<close>

fun show_code :: "int option \<Rightarrow> jsstring" where
  "show_code None = js ''null''"
| "show_code (Some i) = show_int i"

section \<open>The deployed orchestrator (\<^verbatim>\<open>qa-automation-lti.js\<close>)\<close>

text \<open>
  \<^verbatim>\<open>QA_TASKS\<close>: task id, name and category of each task (the description, which only
  the dashboard shows, is left out).
\<close>

definition QA_TASKS :: "(jsstring \<times> jsstring \<times> jsstring) list" where
  "QA_TASKS =
     [(js ''find-duplicate-pages'', js ''Find and Remove Duplicate Pages'', js ''Content Management'')]"

subsection \<open>\<^verbatim>\<open>analyzeTask\<close>\<close>

text \<open>
  The object that strategy 1 resolves with; \<open>None\<close> when building it throws
  (\<^verbatim>\<open>TypeError\<close>), which the handler around \<^verbatim>\<open>JSON.parse\<close> catches as well.
\<close>

definition enhanced_result :: "(jsval \<Rightarrow> bool option) \<Rightarrow> jsval \<Rightarrow> jsval option" where
  "enhanced_result co analysisResults =
     Option.bind (member analysisResults (js ''risk_assessment'')) (\<lambda>risk.
     Option.bind (member analysisResults (js ''findings'')) (\<lambda>fnd.
       let safe = or_else (opt_member fnd (js ''safe_actions'')) (JArr []);
           manual = or_else (opt_member fnd (js ''requires_manual_review'')) (JArr [])
       in
     Option.bind (member safe (js ''length'')) (\<lambda>safe_count.
     Option.bind (member manual (js ''length'')) (\<lambda>manual_count.
     Option.bind (greater_zero co safe_count) (\<lambda>can_proceed.
       Some (JObj
         [(js ''phase'', JNum 2),
          (js ''mode'', JStr (js ''preview_first'')),
          (js ''analyzed_only'', JBool True),
          (js ''executed'', JBool False),
          (js ''findings'', analysisResults),
          (js ''user_approval_required'', JBool True),
          (js ''risk_assessment'', risk),
          (js ''safe_actions'', safe),
          (js ''requires_manual_review'', manual),
          (js ''inbound_links_checked'', JBool True),
          (js ''next_steps'', JObj
             [(js ''safe_actions_count'', safe_count),
              (js ''manual_review_count'', manual_count),
              (js ''can_proceed_with_safe_actions'', JBool can_proceed)])]))))))"

definition fallback_result :: "jsval \<Rightarrow> jsval" where
  "fallback_result fallbackResults =
     JObj
       [(js ''phase'', JNum 2),
        (js ''mode'', JStr (js ''preview_first'')),
        (js ''analyzed_only'', JBool True),
        (js ''executed'', JBool False),
        (js ''findings'', fallbackResults),
        (js ''user_approval_required'', JBool True),
        (js ''fallback_mode'', JBool True)]"

definition extracted_result :: "jsval \<Rightarrow> jsval" where
  "extracted_result extractedResults =
     JObj
       [(js ''phase'', JNum 2),
        (js ''mode'', JStr (js ''preview_first'')),
        (js ''analyzed_only'', JBool True),
        (js ''executed'', JBool False),
        (js ''findings'', extractedResults),
        (js ''user_approval_required'', JBool True),
        (js ''extracted_mode'', JBool True)]"

definition parsing_error_result :: "jsstring \<Rightarrow> jsval" where
  "parsing_error_result output =
     JObj
       [(js ''phase'', JNum 2),
        (js ''mode'', JStr (js ''preview_first'')),
        (js ''analyzed_only'', JBool True),
        (js ''executed'', JBool False),
        (js ''findings'', JObj
           [(js ''message'', JStr (js ''Analysis completed but results parsing failed'')),
            (js ''raw_output'', JStr (substring0 output 1000))]),
        (js ''user_approval_required'', JBool False),
        (js ''parsing_error'', JBool True)]"

text \<open>The success indicators of strategy 4; the fourth literal starts with U+2705.\<close>

definition success_indicator :: "jsstring \<Rightarrow> bool" where
  "success_indicator output =
     (includes_str output (js ''Enhanced analysis complete'')
      \<or> includes_str output (js ''Found'')
      \<or> includes_str output (js ''analysis'')
      \<or> includes_str output (9989 # js '' Phase 2 Enhanced Analysis completed'')
      \<or> includes_str output (js ''Analysis and cleanup completed''))"

text \<open>
  The branch \<^verbatim>\<open>code === 0\<close> of the \<^verbatim>\<open>'close'\<close> listener: strategies 1 to 4, then the
  rejection. A strategy yields \<open>None\<close>, and is left for the next one, when its
  pattern does not match or its \<^verbatim>\<open>try\<close> block throws. (The outer \<^verbatim>\<open>catch\<close> is
  never entered: nothing outside the inner \<^verbatim>\<open>try\<close> blocks throws.)
\<close>

definition strategy_enhanced :: "(jsval \<Rightarrow> bool option) \<Rightarrow> jsstring \<Rightarrow> jsval option" where
  "strategy_enhanced co output =
     Option.bind (enhancedMatch output) (\<lambda>g. Option.bind (JSON_parse g) (enhanced_result co))"

definition strategy_regular :: "jsstring \<Rightarrow> jsval option" where
  "strategy_regular output = Option.bind (regularMatch output) JSON_parse"

definition strategy_extracted :: "jsstring \<Rightarrow> jsval option" where
  "strategy_extracted output = Option.bind (jsonPattern output) JSON_parse"

definition no_results :: "jsstring \<Rightarrow> error" where
  "no_results output =
     Error (js ''Analysis completed but no recognizable results were found. Raw output: ''
              @ substring0 output 500)"

definition analysis_of_output :: "(jsval \<Rightarrow> bool option) \<Rightarrow> jsstring \<Rightarrow> promise" where
  "analysis_of_output co output =
     (case strategy_enhanced co output of
        Some r \<Rightarrow> Resolved r
      | None \<Rightarrow>
     (case strategy_regular output of
        Some v \<Rightarrow> Resolved (fallback_result v)
      | None \<Rightarrow>
     (case strategy_extracted output of
        Some v \<Rightarrow> Resolved (extracted_result v)
      | None \<Rightarrow>
          if success_indicator output then Resolved (parsing_error_result output)
          else Rejected (no_results output))))"

text \<open>The branch for a nonzero exit code: the message of the rejection.\<close>

definition analysis_error_message :: "int option \<Rightarrow> jsstring \<Rightarrow> jsstring" where
  \<open>analysis_error_message code error =
     (if includes_str error (js ''ModuleNotFoundError'') then
        (case missingModule error of
           Some m \<Rightarrow>
             js ''Missing Python package: '' @ m @ js ''. Please install it with: pip3 install '' @ m
         | None \<Rightarrow> js ''Missing Python packages. Please install required dependencies.'')
      else if includes_str error (js ''401'') \<or> includes_str error (js ''Unauthorized'') then
        js ''Canvas API authentication failed. Please check your API token.''
      else if includes_str error (js ''403'') \<or> includes_str error (js ''Forbidden'') then
        js ''Canvas API access forbidden. Please check your API token permissions.''
      else if includes_str error (js ''404'') then
        js ''Course not found or API endpoint invalid. Please check the course ID.''
      else if includes_str error (js ''timeout'') \<or> includes_str error (js ''ConnectionError'') then
        js ''Network timeout connecting to Canvas. Please try again.''
      else if includes_str error (js ''ImportError'') then
        js ''Python script import error. Please check script dependencies.''
      else if error \<noteq> [] then
        js ''Python script error: '' @ substring0 error 200
      else js ''Analysis failed with exit code '' @ show_code code)\<close>

definition analysis_on_close :: "host \<Rightarrow> int option \<Rightarrow> jsstring \<Rightarrow> jsstring \<Rightarrow> promise" where
  "analysis_on_close h code output error =
     (if code = Some 0 then analysis_of_output (coerce h) output
      else Rejected (Error (analysis_error_message code error)))"

definition analysis_on_error :: "jsstring \<Rightarrow> jsstring \<Rightarrow> promise" where
  \<open>analysis_on_error code msg =
     (if code = js ''ENOENT'' then
        Rejected (Error (js ''Python3 not found. Please ensure Python 3 is installed and accessible via "python3" command.''))
      else Rejected (Error (js ''Failed to start analysis process: '' @ msg)))\<close>

definition analysis_timeout :: error where
  "analysis_timeout =
     Error (js ''Analysis timed out after 5 minutes. This may indicate a network issue or large course size.'')"

text \<open>
  The events of one analysis, after the timer is set and the process is spawned: the
  promise and the further effects.
\<close>

fun analysis_events :: "host \<Rightarrow> child \<Rightarrow> promise \<times> effect list" where
  "analysis_events h (Closes code out err) =
     (analysis_on_close h code out err, [ClearTimeout])"
| "analysis_events h (SpawnFails code msg) =
     (analysis_on_error code msg, [ClearTimeout])"
| "analysis_events h (Overruns out err None) =
     (Rejected analysis_timeout, [Kill (js ''SIGTERM'')])"
| "analysis_events h (Overruns out err (Some (code, out', err'))) =
     (settle (Rejected analysis_timeout) (analysis_on_close h code (out @ out') (err @ err')),
      [Kill (js ''SIGTERM''), ClearTimeout])"

definition analyzeTask :: "host \<Rightarrow> jsstring option \<Rightarrow> jsstring option \<Rightarrow> child \<Rightarrow> run" where
  "analyzeTask h taskId courseId ch =
     (if taskId = Some (js ''find-duplicate-pages'') then
        (let scriptPath = path_join [dirname h, js ''scripts'', js ''duplicate_page_cleaner.py''];
             canvasUrl = env_or (CANVAS_URL h) (js ''aculeo.test.instructure.com'');
             apiToken = env_or (CANVAS_API_TOKEN h) []
         in if apiToken = [] then
              \<lparr>settled = Rejected (Error (js ''Canvas API token not configured. Please set CANVAS_API_TOKEN in your environment.'')),
               effects = [], disk_after = disk h\<rparr>
            else if canvasUrl = [] then
              \<lparr>settled = Rejected (Error (js ''Canvas URL not configured. Please set CANVAS_URL in your environment.'')),
               effects = [], disk_after = disk h\<rparr>
            else if \<not> existsSync (disk h) scriptPath then
              \<lparr>settled = Rejected (Error (js ''Python script not found at: '' @ scriptPath)),
               effects = [], disk_after = disk h\<rparr>
            else
              (let args = map Some [scriptPath, js ''--canvas-url'', canvasUrl,
                                    js ''--api-token'', apiToken, js ''--course-id'']
                          @ [courseId]
                          @ map Some [js ''--similarity-threshold'', js ''0.9'', js ''--analyze-only''];
                   (p, es) = analysis_events h ch
               in \<lparr>settled = p,
                   effects = [SetTimeout 300000, Spawn (js ''python3'') args] @ es,
                   disk_after = disk h\<rparr>))
      else
        \<lparr>settled = Rejected (Error (js ''Unknown task: '' @ template taskId)),
         effects = [], disk_after = disk h\<rparr>)"

subsection \<open>The route \<^verbatim>\<open>/execute\<close>\<close>

text \<open>
  What a route handler does: the response it sends (status and JSON body; \<open>None\<close> when
  it never answers), the effects, and the file system it leaves. Of the request body,
  \<^verbatim>\<open>taskId\<close> and \<^verbatim>\<open>courseId\<close> are strings or absent, \<^verbatim>\<open>approvedActions\<close> is any
  value, and \<^verbatim>\<open>userId\<close> is never read. Logging is left out, except for the warning of
  a failed clean-up.
\<close>

record handled =
  reply :: "(nat \<times> jsval) option"
  did :: "effect list"
  disk_end :: filesys

fun field :: "jsstring option \<Rightarrow> jsval" where
  "field None = JUndefined"
| "field (Some s) = JStr s"

definition analysis_failure :: "host \<Rightarrow> jsstring option \<Rightarrow> jsstring option \<Rightarrow> error \<Rightarrow> nat \<times> jsval" where
  "analysis_failure h taskId courseId e =
     (500, JObj
        [(js ''success'', JBool False),
         (js ''error'', JStr (error_message h e)),
         (js ''phase'', JNum 2),
         (js ''debug'', JObj
            [(js ''taskId'', field taskId),
             (js ''courseId'', field courseId),
             (js ''timestamp'', JStr (timestamp h)),
             (js ''errorType'', JStr (error_type e))])])"

definition execute_route :: "host \<Rightarrow> jsstring option \<Rightarrow> jsstring option \<Rightarrow> child \<Rightarrow> handled" where
  "execute_route h taskId courseId ch =
     (if absent taskId then
        \<lparr>reply = Some (analysis_failure h taskId courseId (Error (js ''Task ID is required''))),
         did = [], disk_end = disk h\<rparr>
      else if absent courseId then
        \<lparr>reply = Some (analysis_failure h taskId courseId (Error (js ''Course ID is required''))),
         did = [], disk_end = disk h\<rparr>
      else
        (let r = analyzeTask h taskId courseId ch
         in \<lparr>reply =
               (case settled r of
                  Pending \<Rightarrow> None
                | Resolved analysisResult \<Rightarrow>
                    Some (200, JObj
                      [(js ''success'', JBool True),
                       (js ''phase'', JNum 2),
                       (js ''mode'', JStr (js ''preview_first'')),
                       (js ''taskId'', field taskId),
                       (js ''result'', analysisResult)])
                | Rejected e \<Rightarrow> Some (analysis_failure h taskId courseId e)),
             did = effects r, disk_end = disk_after r\<rparr>))"

subsection \<open>\<^verbatim>\<open>executeApprovedActions\<close> and the route \<^verbatim>\<open>/execute-approved\<close>\<close>

definition execution_fallback :: "jsstring \<Rightarrow> jsval" where
  "execution_fallback output =
     JObj
       [(js ''phase'', JNum 2),
        (js ''mode'', JStr (js ''execution_complete'')),
        (js ''executed'', JBool True),
        (js ''message'', JStr (js ''Execution completed'')),
        (js ''output'', JStr output)]"

text \<open>The object built from the parsed results; \<open>None\<close> when building it throws.\<close>

definition execution_result :: "jsval \<Rightarrow> jsval \<Rightarrow> jsval option" where
  "execution_result approvedActions executionResults =
     Option.bind (member approvedActions (js ''length'')) (\<lambda>requested.
     Option.bind (member executionResults (js ''successful_deletions'')) (\<lambda>succeeded.
     Option.bind (member executionResults (js ''failed_deletions'')) (\<lambda>failed.
       Some (JObj
         [(js ''phase'', JNum 2),
          (js ''mode'', JStr (js ''execution_complete'')),
          (js ''executed'', JBool True),
          (js ''results'', executionResults),
          (js ''summary'', JObj
             [(js ''actions_requested'', requested),
              (js ''actions_completed'', or_else (opt_member succeeded (js ''length'')) (JNum 0)),
              (js ''actions_failed'', or_else (opt_member failed (js ''length'')) (JNum 0))])]))))"

definition execution_on_close :: "jsval \<Rightarrow> int option \<Rightarrow> jsstring \<Rightarrow> jsstring \<Rightarrow> promise" where
  "execution_on_close approvedActions code output error =
     (if code = Some 0 then
        (case executionMatch output of
           Some g \<Rightarrow>
             (case Option.bind (JSON_parse g) (execution_result approvedActions) of
                Some r \<Rightarrow> Resolved r
              | None \<Rightarrow> Resolved (execution_fallback output))
         | None \<Rightarrow> Resolved (execution_fallback output))
      else Rejected (Error (js ''Execution failed: '' @ error)))"

text \<open>
  The \<^verbatim>\<open>'close'\<close> listener: first the clean-up of the temporary file inside its own
  \<^verbatim>\<open>try\<close>, then the result.
\<close>

definition close_listener ::
  "jsval \<Rightarrow> jsstring \<Rightarrow> filesys \<Rightarrow> int option \<Rightarrow> jsstring \<Rightarrow> jsstring
     \<Rightarrow> promise \<times> effect list \<times> filesys" where
  "close_listener approvedActions actionsFile d code output error =
     (case unlinkSync actionsFile d of
        Some d' \<Rightarrow>
          (execution_on_close approvedActions code output error, [UnlinkSync actionsFile], d')
      | None \<Rightarrow>
          (execution_on_close approvedActions code output error,
           [UnlinkSync actionsFile, Warn (js ''Could not clean up temp file:'')], d))"

text \<open>
  The events of one execution. No timer is set and only \<^verbatim>\<open>'close'\<close> has a listener.
\<close>

fun execution_events ::
  "jsval \<Rightarrow> jsstring \<Rightarrow> filesys \<Rightarrow> child \<Rightarrow> promise \<times> effect list \<times> filesys" where
  "execution_events approvedActions actionsFile d (Closes code out err) =
     close_listener approvedActions actionsFile d code out err"
| "execution_events approvedActions actionsFile d (SpawnFails code msg) =
     (Pending, [UncaughtError], d)"
| "execution_events approvedActions actionsFile d (Overruns out err None) =
     (Pending, [], d)"
| "execution_events approvedActions actionsFile d (Overruns out err (Some (code, out', err'))) =
     close_listener approvedActions actionsFile d code (out @ out') (err @ err')"

text \<open>
  \<^verbatim>\<open>if (!fs.existsSync(tempDir)) fs.mkdirSync(tempDir, { recursive: true })\<close>: the
  file system and the effects after it, or \<open>None\<close> when \<^verbatim>\<open>mkdirSync\<close> throws.
\<close>

definition ensure_dir :: "jsstring \<Rightarrow> filesys \<Rightarrow> (filesys \<times> effect list) option" where
  "ensure_dir tempDir d =
     (if existsSync d tempDir then Some (d, [])
      else map_option (\<lambda>d'. (d', [MkdirSync tempDir])) (mkdirSync tempDir d))"

text \<open>
  The executor of the promise runs synchronously: an exception of \<^verbatim>\<open>mkdirSync\<close>,
  \<^verbatim>\<open>JSON.stringify\<close> or \<^verbatim>\<open>writeFileSync\<close> rejects the promise before any process is
  spawned. \<^verbatim>\<open>writeFileSync\<close> checks its data before it opens the file, and
  \<^verbatim>\<open>JSON.stringify(undefined)\<close> is \<^verbatim>\<open>undefined\<close>, which it refuses.
\<close>

definition staged_name :: "jsstring option \<Rightarrow> nat \<Rightarrow> jsstring" where
  "staged_name courseId now =
     js ''approved_actions_'' @ template courseId @ js ''_'' @ show_nat now @ js ''.json''"

definition executeApprovedActions ::
  "host \<Rightarrow> jsstring option \<Rightarrow> jsstring option \<Rightarrow> jsval \<Rightarrow> child \<Rightarrow> run" where
  "executeApprovedActions h taskId courseId approvedActions ch =
     (if taskId = Some (js ''find-duplicate-pages'') then
        (let scriptPath = path_join [dirname h, js ''scripts'', js ''duplicate_page_cleaner.py''];
             canvasUrl = env_or (CANVAS_URL h) (js ''aculeo.test.instructure.com'');
             apiToken = env_or (CANVAS_API_TOKEN h) []
         in if apiToken = [] then
              \<lparr>settled = Rejected (Error (js ''Canvas API token not configured'')),
               effects = [], disk_after = disk h\<rparr>
            else
              (let actionsFile = path_join [dirname h, js ''temp'', staged_name courseId (clock h)];
                   tempDir = path_dirname actionsFile
               in case ensure_dir tempDir (disk h) of
                    None \<Rightarrow>
                      \<lparr>settled = Rejected (Raised SystemError), effects = [MkdirSync tempDir],
                       disk_after = disk h\<rparr>
                  | Some (d1, es1) \<Rightarrow>
                      if approvedActions = JUndefined then
                        \<lparr>settled = Rejected (Raised TypeError), effects = es1, disk_after = d1\<rparr>
                      else
                        (case writeFileSync actionsFile (Stringified approvedActions) d1 of
                           None \<Rightarrow>
                             \<lparr>settled = Rejected (Raised SystemError),
                              effects = es1 @ [WriteFileSync actionsFile], disk_after = d1\<rparr>
                         | Some d2 \<Rightarrow>
                             (let args = map Some [scriptPath, js ''--canvas-url'', canvasUrl,
                                                   js ''--api-token'', apiToken, js ''--course-id'']
                                         @ [courseId]
                                         @ map Some [js ''--execute-approved'', actionsFile];
                                  (p, es, d3) = execution_events approvedActions actionsFile d2 ch
                              in \<lparr>settled = p,
                                  effects = es1 @ [WriteFileSync actionsFile,
                                                   Spawn (js ''python3'') args] @ es,
                                  disk_after = d3\<rparr>))))
      else
        \<lparr>settled = Rejected (Error (js ''Unknown task: '' @ template taskId)),
         effects = [], disk_after = disk h\<rparr>)"

definition execute_approved_route ::
  "host \<Rightarrow> jsstring option \<Rightarrow> jsstring option \<Rightarrow> jsval \<Rightarrow> child \<Rightarrow> handled" where
  "execute_approved_route h taskId courseId approvedActions ch =
     (let r = executeApprovedActions h taskId courseId approvedActions ch
      in \<lparr>reply =
            (case settled r of
               Pending \<Rightarrow> None
             | Resolved result \<Rightarrow>
                 Some (200, JObj
                   [(js ''success'', JBool True),
                    (js ''phase'', JNum 2),
                    (js ''mode'', JStr (js ''execute_approved'')),
                    (js ''taskId'', field taskId),
                    (js ''result'', result)])
             | Rejected e \<Rightarrow>
                 Some (200, JObj
                   [(js ''success'', JBool False),
                    (js ''error'', JStr (error_message h e))])),
          did = effects r, disk_end = disk_after r\<rparr>)"

section \<open>The V3 revision of the orchestrator\<close>

text \<open>\<^verbatim>\<open>QA_TASKS\<close> of the V3 revision: task id, name, category and worker script.\<close>

definition QA_TASKS_v3 :: "(jsstring \<times> jsstring \<times> jsstring \<times> jsstring) list" where
  "QA_TASKS_v3 =
     [(js ''find-duplicate-pages'', js ''Find and Remove Duplicate Pages'',
         js ''Content Management'', js ''duplicate_page_cleaner.py''),
      (js ''validate-assignment-settings'', js ''Validate Assignment Settings'',
         js ''Assessment'', js ''assignment_settings_validator.py''),
      (js ''title-alignment-checker'', js ''Title Alignment Checker'',
         js ''Content Management'', js ''title_alignment_checker.py''),
      (js ''assessment-date-updater'', js ''Assessment Date Updater'',
         js ''Content Management'', js ''assessment_date_updater.py''),
      (js ''table-caption-checker'', js ''Table Caption Checker'',
         js ''Media'', js ''table_caption_checker.py''),
      (js ''remove-empty-groups-modules'', js ''Remove Empty Groups & Modules'',
         js ''Cleanup'', js ''empty_groups_modules_cleaner.py''),
      (js ''rubric-cleanup'', js ''Rubric Cleanup'',
         js ''Assessment'', js ''rubric_cleanup_analyzer.py''),
      (js ''syllabus-acuo-attribution-remover'', js ''Remove Syllabus ACUO Attribution'',
         js ''Syllabus'', js ''syllabus_acuo_attribution_remover.py'')]"

text \<open>
  \<^verbatim>\<open>QA_TASKS[taskId]?.script\<close>; \<open>None\<close> is \<^verbatim>\<open>undefined\<close>. (A property that
  \<^verbatim>\<open>QA_TASKS\<close> inherits from \<^verbatim>\<open>Object.prototype\<close> has no \<^verbatim>\<open>script\<close> either.)
\<close>

definition scriptName :: "jsstring option \<Rightarrow> jsstring option" where
  "scriptName taskId =
     map_option (\<lambda>(name, category, script). script) (map_of QA_TASKS_v3 (template taskId))"

definition analysis_error_message_v3 :: "int option \<Rightarrow> jsstring \<Rightarrow> jsstring" where
  "analysis_error_message_v3 code error =
     (if includes_str error (js ''ModuleNotFoundError'') then
        (case missingModule error of
           Some m \<Rightarrow> js ''Missing Python package: '' @ m @ js ''. Please run: pip install '' @ m
         | None \<Rightarrow> js ''Missing Python dependencies.'')
      else if includes_str error (js ''401'') \<or> includes_str error (js ''Unauthorized'') then
        js ''Canvas API authentication failed (401). Please check your API token.''
      else if includes_str error (js ''403'') \<or> includes_str error (js ''Forbidden'') then
        js ''Canvas API access forbidden (403). Please check your API token permissions.''
      else if includes_str error (js ''404'') then
        js ''Course not found or API endpoint invalid (404). Please check the course ID.''
      else if error \<noteq> [] then
        js ''The script encountered an error: '' @ substring0 error 300 @ js ''...''
      else js ''Analysis script failed with exit code '' @ show_code code @ js ''.'')"

definition analysis_on_close_v3 :: "int option \<Rightarrow> jsstring \<Rightarrow> jsstring \<Rightarrow> promise" where
  "analysis_on_close_v3 code output error =
     (if code = Some 0 then
        (case enhancedMatch_v3 output of
           Some g \<Rightarrow>
             (case JSON_parse g of
                Some v \<Rightarrow> Resolved v
              | None \<Rightarrow> Rejected (Error (js ''Analysis completed but result processing failed.'')))
         | None \<Rightarrow>
             Rejected (Error
               (js ''Analysis completed, but no recognizable results were found in the output. Raw output: ''
                  @ output)))
      else Rejected (Error (analysis_error_message_v3 code error)))"

definition analysis_on_error_v3 :: "jsstring \<Rightarrow> jsstring \<Rightarrow> promise" where
  \<open>analysis_on_error_v3 code msg =
     (if code = js ''ENOENT'' then
        Rejected (Error (js ''Python 3 not found. Please ensure "python3" is in your system''
                           @ [39] @ js ''s PATH.''))
      else Rejected (Error (js ''Failed to start the analysis process: '' @ msg)))\<close>

definition analysis_timeout_v3 :: error where
  "analysis_timeout_v3 =
     Error (js ''Analysis timed out after 5 minutes. This may indicate a large course or network issue.'')"

fun analysis_events_v3 :: "child \<Rightarrow> promise \<times> effect list" where
  "analysis_events_v3 (Closes code out err) =
     (analysis_on_close_v3 code out err, [ClearTimeout])"
| "analysis_events_v3 (SpawnFails code msg) =
     (analysis_on_error_v3 code msg, [ClearTimeout])"
| "analysis_events_v3 (Overruns out err None) =
     (Rejected analysis_timeout_v3, [Kill (js ''SIGTERM'')])"
| "analysis_events_v3 (Overruns out err (Some (code, out', err'))) =
     (settle (Rejected analysis_timeout_v3) (analysis_on_close_v3 code (out @ out') (err @ err')),
      [Kill (js ''SIGTERM''), ClearTimeout])"

definition analyzeTask_v3 :: "host \<Rightarrow> jsstring option \<Rightarrow> jsstring option \<Rightarrow> child \<Rightarrow> run" where
  "analyzeTask_v3 h taskId courseId ch =
     (case scriptName taskId of
        None \<Rightarrow>
          \<lparr>settled = Rejected (Error (js ''Unknown or misconfigured task: '' @ template taskId)),
           effects = [], disk_after = disk h\<rparr>
      | Some script \<Rightarrow>
          (let scriptPath = path_join [dirname h, js ''scripts'', script];
               canvasUrl = env_or (CANVAS_URL h) (js ''aculeo.test.instructure.com'');
               apiToken = env_or (CANVAS_API_TOKEN h) []
           in if apiToken = [] then
                \<lparr>settled = Rejected (Error (js ''Canvas API token not configured in environment.'')),
                 effects = [], disk_after = disk h\<rparr>
              else if \<not> existsSync (disk h) scriptPath then
                \<lparr>settled = Rejected (Error (js ''Required script not found at: '' @ scriptPath)),
                 effects = [], disk_after = disk h\<rparr>
              else
                (let args = map Some [scriptPath, js ''--canvas-url'', strip_scheme canvasUrl,
                                      js ''--api-token'', apiToken, js ''--course-id'']
                            @ [courseId]
                            @ [Some (js ''--analyze-only'')];
                     (p, es) = analysis_events_v3 ch
                 in \<lparr>settled = p,
                     effects = [SetTimeout 300000, Spawn (js ''python3'') args] @ es,
                     disk_after = disk h\<rparr>)))"

definition analysis_failure_v3 :: "host \<Rightarrow> jsstring option \<Rightarrow> jsstring option \<Rightarrow> error \<Rightarrow> nat \<times> jsval" where
  "analysis_failure_v3 h taskId courseId e =
     (500, JObj
        [(js ''success'', JBool False),
         (js ''error'', JStr (error_message h e)),
         (js ''phase'', JNum 3),
         (js ''debug'', JObj
            [(js ''taskId'', field taskId),
             (js ''courseId'', field courseId),
             (js ''timestamp'', JStr (timestamp h)),
             (js ''errorType'', JStr (error_type e))])])"

definition execute_route_v3 :: "host \<Rightarrow> jsstring option \<Rightarrow> jsstring option \<Rightarrow> child \<Rightarrow> handled" where
  "execute_route_v3 h taskId courseId ch =
     (if absent taskId \<or> absent courseId then
        \<lparr>reply = Some (analysis_failure_v3 h taskId courseId
                          (Error (js ''Task ID and Course ID are required.''))),
         did = [], disk_end = disk h\<rparr>
      else
        (let r = analyzeTask_v3 h taskId courseId ch
         in \<lparr>reply =
               (case settled r of
                  Pending \<Rightarrow> None
                | Resolved analysisResult \<Rightarrow>
                    Some (200, JObj
                      [(js ''success'', JBool True),
                       (js ''phase'', JNum 3),
                       (js ''mode'', JStr (js ''preview_first'')),
                       (js ''taskId'', field taskId),
                       (js ''result'', analysisResult)])
                | Rejected e \<Rightarrow> Some (analysis_failure_v3 h taskId courseId e)),
             did = effects r, disk_end = disk_after r\<rparr>))"

definition unstructured_result :: "jsstring \<Rightarrow> jsval" where
  "unstructured_result output =
     JObj
       [(js ''summary'', JObj [(js ''successful'', JNum 0), (js ''failed'', JNum 0)]),
        (js ''message'', JStr (js ''Execution ran but did not return structured results.'')),
        (js ''raw_output'', JStr (substring0 output 500))]"

definition execution_on_close_v3 :: "host \<Rightarrow> int option \<Rightarrow> jsstring \<Rightarrow> jsstring \<Rightarrow> promise" where
  "execution_on_close_v3 h code output error =
     (if code = Some 0 then
        (case executionMatch_v3 output of
           Some g \<Rightarrow>
             (case JSON_parse g of
                Some parsedResult \<Rightarrow> Resolved parsedResult
              | None \<Rightarrow>
                  Rejected (Error (js ''Execution completed, but failed to parse results: ''
                                     @ message_of h SyntaxError)))
         | None \<Rightarrow> Resolved (unstructured_result output))
      else Rejected (Error (js ''Execution script failed: ''
                              @ (if error = [] then js ''Unknown error'' else error))))"

text \<open>
  The \<^verbatim>\<open>'close'\<close> listener of the V3 revision. Its \<^verbatim>\<open>unlinkSync\<close> is not guarded: when
  it throws, the listener is left with an uncaught exception and the promise stays
  pending.
\<close>

definition close_listener_v3 ::
  "host \<Rightarrow> jsstring \<Rightarrow> filesys \<Rightarrow> int option \<Rightarrow> jsstring \<Rightarrow> jsstring
     \<Rightarrow> promise \<times> effect list \<times> filesys" where
  "close_listener_v3 h actionsFile d code output error =
     (case unlinkSync actionsFile d of
        Some d' \<Rightarrow> (execution_on_close_v3 h code output error, [UnlinkSync actionsFile], d')
      | None \<Rightarrow> (Pending, [UnlinkSync actionsFile, UncaughtError], d))"

fun execution_events_v3 ::
  "host \<Rightarrow> jsstring \<Rightarrow> filesys \<Rightarrow> child \<Rightarrow> promise \<times> effect list \<times> filesys" where
  "execution_events_v3 h actionsFile d (Closes code out err) =
     close_listener_v3 h actionsFile d code out err"
| "execution_events_v3 h actionsFile d (SpawnFails code msg) =
     (Pending, [UncaughtError], d)"
| "execution_events_v3 h actionsFile d (Overruns out err None) =
     (Pending, [], d)"
| "execution_events_v3 h actionsFile d (Overruns out err (Some (code, out', err'))) =
     close_listener_v3 h actionsFile d code (out @ out') (err @ err')"

definition executeApprovedActions_v3 ::
  "host \<Rightarrow> jsstring option \<Rightarrow> jsstring option \<Rightarrow> jsval \<Rightarrow> child \<Rightarrow> run" where
  "executeApprovedActions_v3 h taskId courseId approvedActions ch =
     (case scriptName taskId of
        None \<Rightarrow>
          \<lparr>settled = Rejected (Error (js ''Misconfigured task: '' @ template taskId)),
           effects = [], disk_after = disk h\<rparr>
      | Some script \<Rightarrow>
          (let scriptPath = path_join [dirname h, js ''scripts'', script];
               canvasUrl = env_or (CANVAS_URL h) (js ''aculeo.test.instructure.com'');
               apiToken = env_or (CANVAS_API_TOKEN h) []
           in if apiToken = [] then
                \<lparr>settled = Rejected (Error (js ''Canvas API token not configured.'')),
                 effects = [], disk_after = disk h\<rparr>
              else
                (let tempDir = path_join [dirname h, js ''temp''];
                     actionsFile = path_join [tempDir, staged_name courseId (clock h)]
                 in case ensure_dir tempDir (disk h) of
                      None \<Rightarrow>
                        \<lparr>settled = Rejected (Raised SystemError), effects = [MkdirSync tempDir],
                         disk_after = disk h\<rparr>
                    | Some (d1, es1) \<Rightarrow>
                        if approvedActions = JUndefined then
                          \<lparr>settled = Rejected (Raised TypeError), effects = es1, disk_after = d1\<rparr>
                        else
                          (case writeFileSync actionsFile (Stringified approvedActions) d1 of
                             None \<Rightarrow>
                               \<lparr>settled = Rejected (Raised SystemError),
                                effects = es1 @ [WriteFileSync actionsFile], disk_after = d1\<rparr>
                           | Some d2 \<Rightarrow>
                               (let args = map Some [scriptPath, js ''--canvas-url'',
                                                     strip_scheme canvasUrl,
                                                     js ''--api-token'', apiToken, js ''--course-id'']
                                           @ [courseId]
                                           @ map Some [js ''--execute-from-json'', actionsFile];
                                    (p, es, d3) = execution_events_v3 h actionsFile d2 ch
                                in \<lparr>settled = p,
                                    effects = es1 @ [WriteFileSync actionsFile,
                                                     Spawn (js ''python3'') args] @ es,
                                    disk_after = d3\<rparr>)))))"

fun is_array :: "jsval \<Rightarrow> bool" where
  "is_array (JArr xs) = True"
| "is_array v = False"

definition execution_failure_v3 :: "host \<Rightarrow> error \<Rightarrow> nat \<times> jsval" where
  "execution_failure_v3 h e =
     (500, JObj [(js ''success'', JBool False), (js ''error'', JStr (error_message h e))])"

text \<open>
  The handler reads \<^verbatim>\<open>approvedActions.length\<close> for its log line before it validates
  the request; for \<^verbatim>\<open>null\<close> and \<^verbatim>\<open>undefined\<close> that throws inside the \<^verbatim>\<open>try\<close>.
\<close>

definition execute_approved_route_v3 ::
  "host \<Rightarrow> jsstring option \<Rightarrow> jsstring option \<Rightarrow> jsval \<Rightarrow> child \<Rightarrow> handled" where
  "execute_approved_route_v3 h taskId courseId approvedActions ch =
     (if member approvedActions (js ''length'') = None then
        \<lparr>reply = Some (execution_failure_v3 h (Raised TypeError)), did = [], disk_end = disk h\<rparr>
      else if absent taskId \<or> absent courseId \<or> \<not> is_array approvedActions then
        \<lparr>reply = Some (execution_failure_v3 h
                          (Error (js ''Task ID, Course ID, and a valid actions array are required.''))),
         did = [], disk_end = disk h\<rparr>
      else if approvedActions = JArr [] then
        \<lparr>reply = Some (200, JObj
                    [(js ''success'', JBool True),
                     (js ''message'', JStr (js ''No actions were selected for execution.''))]),
         did = [], disk_end = disk h\<rparr>
      else
        (let r = executeApprovedActions_v3 h taskId courseId approvedActions ch
         in \<lparr>reply =
               (case settled r of
                  Pending \<Rightarrow> None
                | Resolved result \<Rightarrow>
                    Some (200, JObj
                      [(js ''success'', JBool True),
                       (js ''phase'', JNum 3),
                       (js ''mode'', JStr (js ''execute_approved'')),
                       (js ''taskId'', field taskId),
                       (js ''result'', result)])
                | Rejected e \<Rightarrow> Some (execution_failure_v3 h e)),
             did = effects r, disk_end = disk_after r\<rparr>))"

section \<open>A sample host\<close>

text \<open>
  A host on which both revisions can run \<^verbatim>\<open>find-duplicate-pages\<close>: the credential is
  set, and the disk holds the application directory with the worker script in
  \<^verbatim>\<open>scripts\<close> and nothing else; the operating system refuses nothing.
\<close>

definition sample_script :: jsstring where
  "sample_script = js ''/app/scripts/duplicate_page_cleaner.py''"

definition sample_disk :: filesys where
  "sample_disk =
     \<lparr>files = Map.empty(sample_script \<mapsto> Other), dirs = {js ''/app'', js ''/app/scripts''},
      pinned = {}, refused = {}\<rparr>"

definition sample_host :: host where
  "sample_host =
     \<lparr>CANVAS_URL = None,
      CANVAS_API_TOKEN = Some (js ''secret''),
      dirname = js ''/app'',
      clock = 1700000000000,
      timestamp = js ''2023-11-14T22:13:20.000Z'',
      disk = sample_disk,
      coerce = (\<lambda>v. Some False),
      message_of = (\<lambda>x. js ''exception'')\<rparr>"

definition sample_staged :: jsstring where
  "sample_staged = js ''/app/temp/approved_actions_42_1700000000000.json''"

definition sample_action :: jsval where
  "sample_action = JObj [(js ''id'', JNum 1), (js ''reason'', JStr (js ''r''))]"

definition find_duplicate_pages :: "jsstring option" where
  "find_duplicate_pages = Some (js ''find-duplicate-pages'')"

text \<open>
  The disk of the sample host once a batch has been staged for course 42: the directory
  \<^verbatim>\<open>temp\<close> is there and the staged file holds the batch.
\<close>

definition staged_disk :: "jsval \<Rightarrow> filesys" where
  "staged_disk acts =
     \<lparr>files = Map.empty(sample_script \<mapsto> Other, sample_staged \<mapsto> Stringified acts),
      dirs = {js ''/app/temp'', js ''/app'', js ''/app/scripts''},
      pinned = {}, refused = {}\<rparr>"


text \<open>The same host, except that \<^verbatim>\<open>temp\<close> in the application directory is a regular file.\<close>

definition blocked_host :: host where
  "blocked_host =
     sample_host\<lparr>disk := sample_disk\<lparr>files := (files sample_disk)(js ''/app/temp'' \<mapsto> Other)\<rparr>\<rparr>"





text \<open>The value a promise is resolved with (\<^verbatim>\<open>undefined\<close> when it is not resolved).\<close>

fun resolved_value :: "promise \<Rightarrow> jsval" where
  "resolved_value (Resolved v) = v"
| "resolved_value p = JUndefined"

text \<open>
  The stdout line of the specification's example and the document it carries; then the
  same line with the keys spelled as the orchestrator reads them.
\<close>

definition spec_line :: jsstring where
  \<open>spec_line = js ''ENHANCED_ANALYSIS_JSON: {"findings":{"safeActions":[{"id":1,"reason":"r"}],"manualReviewActions":[]},"summary":{}}''\<close>

definition spec_document :: jsval where
  "spec_document =
     JObj
       [(js ''findings'', JObj
           [(js ''safeActions'', JArr [sample_action]), (js ''manualReviewActions'', JArr [])]),
        (js ''summary'', JObj [])]"

definition snake_line :: jsstring where
  \<open>snake_line = js ''ENHANCED_ANALYSIS_JSON: {"findings":{"safe_actions":[{"id":1,"reason":"r"}],"requires_manual_review":[]},"summary":{}}''\<close>

definition snake_document :: jsval where
  "snake_document =
     JObj
       [(js ''findings'', JObj
           [(js ''safe_actions'', JArr [sample_action]), (js ''requires_manual_review'', JArr [])]),
        (js ''summary'', JObj [])]"









text \<open>Sample stderr texts of a failed worker.\<close>

definition unauthorized_line :: jsstring where
  "unauthorized_line = js ''requests.exceptions.HTTPError: 401 Unauthorized''"

definition import_failure :: jsstring where
  "import_failure = js ''ImportError: cannot import name Canvas''"

definition shadowed_401 :: jsstring where
  "shadowed_401 =
     js ''ModuleNotFoundError: No module named '' @ [39] @ js ''requests'' @ [39]
       @ js '' (after 401 Unauthorized)''"

text \<open>The answer of the V3 route to a request that selects no action.\<close>

definition no_selection :: "nat \<times> jsval" where
  "no_selection =
     (200, JObj [(js ''success'', JBool True),
                 (js ''message'', JStr (js ''No actions were selected for execution.''))])"

text \<open>The file that is staged on the sample host when the request has no course id.\<close>

definition sample_staged_undefined :: jsstring where
  "sample_staged_undefined = js ''/app/temp/approved_actions_undefined_1700000000000.json''"

section \<open>Properties\<close>

lemmas json_eval =
  JSON_parse_def is_json_ws_def is_digit_def scan_number_def scan_exponent_def digits_val_def

subsection \<open>Unknown tasks\<close>

text \<open>
  C9. A task id that is not a key of the task registry makes \<^verbatim>\<open>analyzeTask\<close> reject
  with the unknown-task error, and the call has no effect at all: in particular no
  worker process is spawned. This holds for the deployed orchestrator with its registry
  and for the V3 revision with its own. (An absent id is looked up, and reported, as
  \<^verbatim>\<open>undefined\<close>.)
\<close>

theorem unknown_task_rejected_before_spawn:
  "(template taskId \<notin> fst ` set QA_TASKS \<longrightarrow>
      settled (analyzeTask h taskId courseId ch)
        = Rejected (Error (js ''Unknown task: '' @ template taskId))
      \<and> effects (analyzeTask h taskId courseId ch) = []
      \<and> \<not> spawned (analyzeTask h taskId courseId ch))
   \<and> (template taskId \<notin> fst ` set QA_TASKS_v3 \<longrightarrow>
      settled (analyzeTask_v3 h taskId courseId ch)
        = Rejected (Error (js ''Unknown or misconfigured task: '' @ template taskId))
      \<and> effects (analyzeTask_v3 h taskId courseId ch) = []
      \<and> \<not> spawned (analyzeTask_v3 h taskId courseId ch))"
proof (intro conjI impI)
  assume a: "template taskId \<notin> fst ` set QA_TASKS"
  have ne: "taskId \<noteq> Some (js ''find-duplicate-pages'')"
  proof
    assume "taskId = Some (js ''find-duplicate-pages'')"
    with a show False by (simp add: QA_TASKS_def)
  qed
  show "settled (analyzeTask h taskId courseId ch)
          = Rejected (Error (js ''Unknown task: '' @ template taskId))"
    using ne by (simp add: analyzeTask_def)
  show "effects (analyzeTask h taskId courseId ch) = []"
    using ne by (simp add: analyzeTask_def)
  show "\<not> spawned (analyzeTask h taskId courseId ch)"
    using ne by (simp add: analyzeTask_def spawned_def)
next
  assume b: "template taskId \<notin> fst ` set QA_TASKS_v3"
  have none: "scriptName taskId = None"
    using b by (simp add: scriptName_def map_of_eq_None_iff)
  show "settled (analyzeTask_v3 h taskId courseId ch)
          = Rejected (Error (js ''Unknown or misconfigured task: '' @ template taskId))"
    using none by (simp add: analyzeTask_v3_def)
  show "effects (analyzeTask_v3 h taskId courseId ch) = []"
    using none by (simp add: analyzeTask_v3_def)
  show "\<not> spawned (analyzeTask_v3 h taskId courseId ch)"
    using none by (simp add: analyzeTask_v3_def spawned_def)
qed

theorem unknown_task_rejected_before_spawn_witness:
  "template (Some (js ''fix-everything'')) \<notin> fst ` set QA_TASKS
   \<and> template (Some (js ''fix-everything'')) \<notin> fst ` set QA_TASKS_v3
   \<and> settled (analyzeTask sample_host (Some (js ''fix-everything'')) (Some (js ''42''))
                 (Closes (Some 0) [] []))
       = Rejected (Error (js ''Unknown task: fix-everything''))
   \<and> \<not> spawned (analyzeTask sample_host (Some (js ''fix-everything'')) (Some (js ''42''))
                   (Closes (Some 0) [] []))
   \<and> settled (analyzeTask_v3 sample_host (Some (js ''fix-everything'')) (Some (js ''42''))
                 (Closes (Some 0) [] []))
       = Rejected (Error (js ''Unknown or misconfigured task: fix-everything''))
   \<and> \<not> spawned (analyzeTask_v3 sample_host (Some (js ''fix-everything'')) (Some (js ''42''))
                   (Closes (Some 0) [] []))"
proof -
  have a: "template (Some (js ''fix-everything'')) \<notin> fst ` set QA_TASKS"
    by (simp add: QA_TASKS_def)
  have b: "template (Some (js ''fix-everything'')) \<notin> fst ` set QA_TASKS_v3"
    by (simp add: QA_TASKS_v3_def)
  show ?thesis
    using a b
      unknown_task_rejected_before_spawn
        [of "Some (js ''fix-everything'')" sample_host "Some (js ''42'')" "Closes (Some 0) [] []"]
    by simp
qed

subsection \<open>Staging and spawning\<close>

text \<open>
  A call of \<^verbatim>\<open>executeApprovedActions\<close> that has spawned the worker has staged the batch
  before: the staged file holds the approved actions, and what the call settles with,
  does and leaves on the disk from there on is what the events of the child process
  make of it.
\<close>

lemma ensure_dir_keeps:
  assumes "ensure_dir p d = Some (d1, es1)"
  shows "pinned d1 = pinned d" and "files d1 = files d" and "UncaughtError \<notin> set es1"
  using assms
  by (auto simp add: ensure_dir_def mkdirSync_def split: if_splits)

lemma writeFileSync_writes:
  assumes "writeFileSync p c d = Some d2"
  shows "pinned d2 = pinned d" and "files d2 p = Some c"
  using assms
  by (auto simp add: writeFileSync_def split: if_splits)

lemma spawned_execution:
  assumes "spawned (executeApprovedActions h taskId courseId approvedActions ch)"
  shows "\<exists>d2 es0.
           pinned d2 = pinned (disk h)
           \<and> files d2 (path_join [dirname h, js ''temp'', staged_name courseId (clock h)])
               = Some (Stringified approvedActions)
           \<and> UncaughtError \<notin> set es0
           \<and> settled (executeApprovedActions h taskId courseId approvedActions ch)
               = fst (execution_events approvedActions
                        (path_join [dirname h, js ''temp'', staged_name courseId (clock h)]) d2 ch)
           \<and> effects (executeApprovedActions h taskId courseId approvedActions ch)
               = es0 @ fst (snd (execution_events approvedActions
                        (path_join [dirname h, js ''temp'', staged_name courseId (clock h)]) d2 ch))
           \<and> disk_after (executeApprovedActions h taskId courseId approvedActions ch)
               = snd (snd (execution_events approvedActions
                        (path_join [dirname h, js ''temp'', staged_name courseId (clock h)]) d2 ch))"
proof -
  let ?F = "path_join [dirname h, js ''temp'', staged_name courseId (clock h)]"
  have t: "taskId = Some (js ''find-duplicate-pages'')"
    using assms by (cases "taskId = Some (js ''find-duplicate-pages'')")
      (simp_all add: executeApprovedActions_def spawned_def)
  have k: "env_or (CANVAS_API_TOKEN h) [] \<noteq> []"
    using assms t by (cases "env_or (CANVAS_API_TOKEN h) [] = []")
      (simp_all add: executeApprovedActions_def spawned_def)
  obtain d1 es1 where e: "ensure_dir (path_dirname ?F) (disk h) = Some (d1, es1)"
    using assms t k by (cases "ensure_dir (path_dirname ?F) (disk h)")
      (auto simp add: executeApprovedActions_def spawned_def Let_def is_spawn_def)
  have u: "approvedActions \<noteq> JUndefined"
    using assms t k e by (cases "approvedActions = JUndefined")
      (auto simp add: executeApprovedActions_def spawned_def Let_def is_spawn_def
        ensure_dir_def split: if_splits)
  obtain d2 where w: "writeFileSync ?F (Stringified approvedActions) d1 = Some d2"
    using assms t k e u by (cases "writeFileSync ?F (Stringified approvedActions) d1")
      (auto simp add: executeApprovedActions_def spawned_def Let_def is_spawn_def
        ensure_dir_def split: if_splits)
  note r = ensure_dir_keeps [OF e] writeFileSync_writes [OF w]
  show ?thesis
    apply (rule exI [of _ d2])
    using t k e u w r
    by (simp add: executeApprovedActions_def Let_def split: prod.splits)
qed




lemma sample_host_execution:
  "acts \<noteq> JUndefined \<Longrightarrow>
   effects (executeApprovedActions sample_host find_duplicate_pages (Some (js ''42'')) acts ch)
     = [MkdirSync (js ''/app/temp''), WriteFileSync sample_staged,
        Spawn (js ''python3'')
          (map Some [sample_script, js ''--canvas-url'', js ''aculeo.test.instructure.com'',
                     js ''--api-token'', js ''secret'', js ''--course-id'', js ''42'',
                     js ''--execute-approved'', sample_staged])]
       @ fst (snd (execution_events acts sample_staged (staged_disk acts) ch))"
  by (simp add: executeApprovedActions_def find_duplicate_pages_def sample_host_def
      sample_disk_def sample_script_def sample_staged_def staged_name_def show_nat.simps
      path_join_def path_normalize_def path_dirname_def staged_disk_def
      ensure_dir_def existsSync_def mkdirSync_def writeFileSync_def Let_def split: prod.splits)

lemma sample_host_execution_settled:
  "acts \<noteq> JUndefined \<Longrightarrow>
   settled (executeApprovedActions sample_host find_duplicate_pages (Some (js ''42'')) acts ch)
     = fst (execution_events acts sample_staged (staged_disk acts) ch)"
  by (simp add: executeApprovedActions_def find_duplicate_pages_def sample_host_def
      sample_disk_def sample_script_def sample_staged_def staged_name_def show_nat.simps
      path_join_def path_normalize_def path_dirname_def staged_disk_def
      ensure_dir_def existsSync_def mkdirSync_def writeFileSync_def Let_def split: prod.splits)

lemma sample_host_execution_disk:
  "acts \<noteq> JUndefined \<Longrightarrow>
   disk_after (executeApprovedActions sample_host find_duplicate_pages (Some (js ''42'')) acts ch)
     = snd (snd (execution_events acts sample_staged (staged_disk acts) ch))"
  by (simp add: executeApprovedActions_def find_duplicate_pages_def sample_host_def
      sample_disk_def sample_script_def sample_staged_def staged_name_def show_nat.simps
      path_join_def path_normalize_def path_dirname_def staged_disk_def
      ensure_dir_def existsSync_def mkdirSync_def writeFileSync_def Let_def split: prod.splits)

text \<open>
  Where the batch cannot be staged the call is rejected with the exception of the file
  system and no worker is spawned: on the host whose \<^verbatim>\<open>temp\<close> is a regular file,
  \<^verbatim>\<open>existsSync\<close> finds it, no directory is made and \<^verbatim>\<open>writeFileSync\<close> throws.
\<close>

lemma staging_failure_rejects:
  "acts \<noteq> JUndefined \<Longrightarrow>
   settled (executeApprovedActions blocked_host find_duplicate_pages (Some (js ''42'')) acts ch)
     = Rejected (Raised SystemError)"
  "acts \<noteq> JUndefined \<Longrightarrow>
   effects (executeApprovedActions blocked_host find_duplicate_pages (Some (js ''42'')) acts ch)
     = [WriteFileSync sample_staged]"
  "\<not> spawned (executeApprovedActions blocked_host find_duplicate_pages (Some (js ''42'')) acts ch)"
  by (simp_all add: executeApprovedActions_def blocked_host_def sample_host_def
      path_join_def path_normalize_def path_dirname_def staged_name_def show_nat.simps
      ensure_dir_def existsSync_def mkdirSync_def writeFileSync_def sample_disk_def
      sample_staged_def sample_script_def
      find_duplicate_pages_def Let_def spawned_def is_spawn_def split: prod.splits)

subsection \<open>Clean-up failures\<close>





subsection \<open>The example line of the primary protocol\<close>

lemma sample_host_analysis:
  "settled (analyzeTask sample_host find_duplicate_pages courseId ch)
     = fst (analysis_events sample_host ch)"
  by (simp add: analyzeTask_def find_duplicate_pages_def sample_host_def sample_disk_def
      sample_script_def existsSync_def path_join_def path_normalize_def Let_def
      split: prod.splits)

lemma spec_line_match: "enhancedMatch spec_line = Some (drop 24 spec_line)"
  by (simp add: enhancedMatch_def spec_line_def is_space_def dots_def is_line_terminator_def)

lemma spec_line_parse: "JSON_parse (drop 24 spec_line) = Some spec_document"
  by (simp add: spec_line_def json_eval spec_document_def sample_action_def)

lemma snake_line_match: "enhancedMatch snake_line = Some (drop 24 snake_line)"
  by (simp add: enhancedMatch_def snake_line_def is_space_def dots_def is_line_terminator_def)

lemma snake_line_parse: "JSON_parse (drop 24 snake_line) = Some snake_document"
  by (simp add: snake_line_def json_eval snake_document_def sample_action_def)

lemmas example_line_eval =
  analysis_on_close_def analysis_of_output_def strategy_enhanced_def spec_line_match spec_line_parse
  snake_line_match snake_line_parse enhanced_result_def spec_document_def snake_document_def
  opt_member_def or_else_def own_property_def Let_def

text \<open>
  C5, as the code has it. For exit code 0 and the line of the example, the call resolves
  with an object that carries the parsed document unchanged under \<^verbatim>\<open>findings\<close>; in
  that document \<^verbatim>\<open>findings.safeActions\<close> has exactly one element, whose \<^verbatim>\<open>id\<close> is 1.
  The object's own \<^verbatim>\<open>safe_actions\<close> sequence is read from the key
  \<^verbatim>\<open>findings.safe_actions\<close>, which the example does not have: it is empty, and
  \<^verbatim>\<open>next_steps.safe_actions_count\<close> is 0. With the keys spelled \<^verbatim>\<open>safe_actions\<close> and
  \<^verbatim>\<open>requires_manual_review\<close>, the object's \<^verbatim>\<open>safe_actions\<close> has exactly that one
  element.
\<close>

theorem example_line_result:
  "member (resolved_value (analysis_on_close h (Some 0) spec_line err)) (js ''findings'')
     = Some spec_document
   \<and> Option.bind (member spec_document (js ''findings'')) (\<lambda>f. member f (js ''safeActions''))
       = Some (JArr [sample_action])
   \<and> member sample_action (js ''id'') = Some (JNum 1)
   \<and> member (resolved_value (analysis_on_close h (Some 0) spec_line err)) (js ''safe_actions'')
       = Some (JArr [])
   \<and> Option.bind
         (member (resolved_value (analysis_on_close h (Some 0) spec_line err)) (js ''next_steps''))
         (\<lambda>n. member n (js ''safe_actions_count''))
       = Some (JNum 0)
   \<and> member (resolved_value (analysis_on_close h (Some 0) snake_line err)) (js ''safe_actions'')
       = Some (JArr [sample_action])"
proof (intro conjI)
  show "member (resolved_value (analysis_on_close h (Some 0) spec_line err)) (js ''findings'')
          = Some spec_document"
    by (simp add: example_line_eval)
  show "Option.bind (member spec_document (js ''findings'')) (\<lambda>f. member f (js ''safeActions''))
          = Some (JArr [sample_action])"
    by (simp add: spec_document_def own_property_def)
  show "member sample_action (js ''id'') = Some (JNum 1)"
    by (simp add: sample_action_def own_property_def)
  show "member (resolved_value (analysis_on_close h (Some 0) spec_line err)) (js ''safe_actions'')
          = Some (JArr [])"
    by (simp add: example_line_eval)
  show "Option.bind
          (member (resolved_value (analysis_on_close h (Some 0) spec_line err)) (js ''next_steps''))
          (\<lambda>n. member n (js ''safe_actions_count''))
        = Some (JNum 0)"
    by (simp add: example_line_eval)
  show "member (resolved_value (analysis_on_close h (Some 0) snake_line err)) (js ''safe_actions'')
          = Some (JArr [sample_action])"
    by (simp add: example_line_eval)
qed

text \<open>
  The example as the claim states it: on the sample host, with exit code 0 and the
  line of the example on stdout, the result's safe-actions sequence is empty.
\<close>

theorem example_line_counterexample:
  "member
     (resolved_value
        (settled (analyzeTask sample_host find_duplicate_pages (Some (js ''42''))
                    (Closes (Some 0) spec_line []))))
     (js ''safe_actions'')
   = Some (JArr [])"
  by (simp add: sample_host_analysis example_line_eval)

subsection \<open>The fallback chain of the extractor\<close>














subsection \<open>Classification of a failed analysis\<close>

text \<open>\<^verbatim>\<open>includes\<close> is the substring test, and the regular expression for the missing
  module captures the name of the first \<^verbatim>\<open>No module named '...'\<close>.\<close>

lemma starts_with_iff: "starts_with s p \<longleftrightarrow> (\<exists>r. s = p @ r)"
  by (induction s p rule: starts_with.induct) auto

lemma includes_str_iff: "includes_str s t \<longleftrightarrow> (\<exists>pre post. s = pre @ t @ post)"
proof (induction s)
  case Nil
  then show ?case by auto
next
  case (Cons c cs)
  show ?case
  proof
    assume "includes_str (c # cs) t"
    then consider "starts_with (c # cs) t" | "includes_str cs t" by auto
    then show "\<exists>pre post. c # cs = pre @ t @ post"
    proof cases
      case 1
      then obtain r where "c # cs = t @ r" by (auto simp add: starts_with_iff)
      then have "c # cs = [] @ t @ r" by simp
      then show ?thesis by blast
    next
      case 2
      with Cons.IH obtain pre post where "cs = pre @ t @ post" by blast
      then have "c # cs = (c # pre) @ t @ post" by simp
      then show ?thesis by blast
    qed
  next
    assume "\<exists>pre post. c # cs = pre @ t @ post"
    then obtain pre post where e: "c # cs = pre @ t @ post" by blast
    show "includes_str (c # cs) t"
    proof (cases pre)
      case Nil
      with e have "starts_with (c # cs) t" by (auto simp add: starts_with_iff)
      then show ?thesis by simp
    next
      case (Cons p pre')
      with e have "cs = pre' @ t @ post" by simp
      with Cons.IH have "includes_str cs t" by blast
      then show ?thesis by simp
    qed
  qed
qed

lemma includes_str_longer: "includes_str s (a @ b) \<Longrightarrow> includes_str s a"
proof -
  assume "includes_str s (a @ b)"
  then obtain pre post where "s = pre @ (a @ b) @ post" by (auto simp add: includes_str_iff)
  then have "s = pre @ a @ (b @ post)" by simp
  then show ?thesis unfolding includes_str_iff by blast
qed

lemma quoted_name_found:
  "name \<noteq> [] \<Longrightarrow> 39 \<notin> set name \<Longrightarrow> quoted_name (name @ [39] @ post) = Some name"
proof -
  assume n: "name \<noteq> []" and q: "39 \<notin> set name"
  from q have "takeWhile (\<lambda>x. x \<noteq> 39) (name @ 39 # post) = name"
    by (induction name) auto
  with n show ?thesis by (simp add: quoted_name_def)
qed

lemma starts_with_shorter:
  assumes "starts_with (a @ b) p" and "length p \<le> length a"
  shows "starts_with a p"
proof -
  from assms(1) obtain r where e: "a @ b = p @ r" by (auto simp add: starts_with_iff)
  with assms(2) have "a = p @ drop (length p) a"
    by (metis append_eq_append_conv_if append_take_drop_id)
  then show ?thesis unfolding starts_with_iff by blast
qed

lemma match_after_first:
  assumes "lit \<noteq> []" and "\<not> includes_str (pre @ butlast lit) lit"
  shows "match_after lit rest (pre @ lit @ s) = match_after lit rest (lit @ s)"
  using assms(2)
proof (induction pre)
  case Nil
  then show ?case by simp
next
  case (Cons c pre)
  have no: "\<not> starts_with (c # pre @ lit @ s) lit"
  proof
    assume sw: "starts_with (c # pre @ lit @ s) lit"
    have "c # pre @ lit @ s = (c # pre @ butlast lit) @ (last lit # s)"
      using assms(1) by simp
    with sw have "starts_with ((c # pre @ butlast lit) @ (last lit # s)) lit" by simp
    moreover have "length lit \<le> length (c # pre @ butlast lit)"
      using assms(1) by simp
    ultimately have "starts_with (c # pre @ butlast lit) lit" by (rule starts_with_shorter)
    with Cons.prems show False by simp
  qed
  from Cons.prems have "\<not> includes_str (pre @ butlast lit) lit" by simp
  with Cons.IH have "match_after lit rest (pre @ lit @ s) = match_after lit rest (lit @ s)" .
  with no show ?case by simp
qed

lemma missingModule_first:
  assumes "\<not> includes_str (pre @ js ''No module named '') (js ''No module named '' @ [39])"
    and "name \<noteq> []" and "39 \<notin> set name"
  shows "missingModule (pre @ js ''No module named '' @ [39] @ name @ [39] @ post) = Some name"
proof -
  let ?lit = "js ''No module named '' @ [39]"
  have b: "butlast ?lit = js ''No module named ''" by simp
  have ne: "?lit \<noteq> []" by simp
  have ni: "\<not> includes_str (pre @ butlast ?lit) ?lit"
    unfolding b using assms(1) .
  have "match_after ?lit quoted_name (pre @ ?lit @ (name @ [39] @ post))
          = match_after ?lit quoted_name (?lit @ (name @ [39] @ post))"
    using ne ni by (rule match_after_first)
  moreover have "match_after ?lit quoted_name (?lit @ (name @ [39] @ post)) = Some name"
    using quoted_name_found [OF assms(2,3), of post] by simp
  ultimately show ?thesis by (simp add: missingModule_def)
qed


text \<open>
  C6, as the code has it. For a nonzero exit code the message of the rejection is chosen
  from stderr by the first of these that applies: \<^verbatim>\<open>ModuleNotFoundError\<close> (missing
  dependency, naming the module when \<^verbatim>\<open>No module named '...'\<close> is present);
  \<^verbatim>\<open>401\<close> or \<^verbatim>\<open>Unauthorized\<close> (authentication failure); \<^verbatim>\<open>403\<close> or
  \<^verbatim>\<open>Forbidden\<close> (permission denied); \<^verbatim>\<open>404\<close> (not found); \<^verbatim>\<open>timeout\<close> or
  \<^verbatim>\<open>ConnectionError\<close> (network timeout); \<^verbatim>\<open>ImportError\<close> (import error); otherwise,
  for a stderr that is not empty, the generic error with the first 200 code units of
  stderr; and for an empty stderr the message that names the exit code. In particular
  stderr containing \<^verbatim>\<open>401 Unauthorized\<close> and not \<^verbatim>\<open>ModuleNotFoundError\<close> is an
  authentication failure.
\<close>

theorem classification_priority:
  "(includes_str err (js ''ModuleNotFoundError'') \<longrightarrow>
      analysis_error_message code err =
        (case missingModule err of
           Some m \<Rightarrow>
             js ''Missing Python package: '' @ m @ js ''. Please install it with: pip3 install '' @ m
         | None \<Rightarrow> js ''Missing Python packages. Please install required dependencies.''))
   \<and> (includes_str err (js ''ModuleNotFoundError'')
        \<and> err = pre @ js ''No module named '' @ [39] @ name @ [39] @ post
        \<and> \<not> includes_str (pre @ js ''No module named '') (js ''No module named '' @ [39])
        \<and> name \<noteq> [] \<and> 39 \<notin> set name \<longrightarrow>
      analysis_error_message code err =
        js ''Missing Python package: '' @ name @ js ''. Please install it with: pip3 install '' @ name)
   \<and> (\<not> includes_str err (js ''ModuleNotFoundError'')
        \<and> (includes_str err (js ''401'') \<or> includes_str err (js ''Unauthorized'')) \<longrightarrow>
      analysis_error_message code err =
        js ''Canvas API authentication failed. Please check your API token.'')
   \<and> (\<not> includes_str err (js ''ModuleNotFoundError'')
        \<and> includes_str err (js ''401 Unauthorized'') \<longrightarrow>
      analysis_error_message code err =
        js ''Canvas API authentication failed. Please check your API token.'')
   \<and> (\<not> includes_str err (js ''ModuleNotFoundError'')
        \<and> \<not> includes_str err (js ''401'') \<and> \<not> includes_str err (js ''Unauthorized'')
        \<and> (includes_str err (js ''403'') \<or> includes_str err (js ''Forbidden'')) \<longrightarrow>
      analysis_error_message code err =
        js ''Canvas API access forbidden. Please check your API token permissions.'')
   \<and> (\<not> includes_str err (js ''ModuleNotFoundError'')
        \<and> \<not> includes_str err (js ''401'') \<and> \<not> includes_str err (js ''Unauthorized'')
        \<and> \<not> includes_str err (js ''403'') \<and> \<not> includes_str err (js ''Forbidden'')
        \<and> includes_str err (js ''404'') \<longrightarrow>
      analysis_error_message code err =
        js ''Course not found or API endpoint invalid. Please check the course ID.'')
   \<and> (\<not> includes_str err (js ''ModuleNotFoundError'')
        \<and> \<not> includes_str err (js ''401'') \<and> \<not> includes_str err (js ''Unauthorized'')
        \<and> \<not> includes_str err (js ''403'') \<and> \<not> includes_str err (js ''Forbidden'')
        \<and> \<not> includes_str err (js ''404'')
        \<and> (includes_str err (js ''timeout'') \<or> includes_str err (js ''ConnectionError'')) \<longrightarrow>
      analysis_error_message code err =
        js ''Network timeout connecting to Canvas. Please try again.'')
   \<and> (\<not> includes_str err (js ''ModuleNotFoundError'')
        \<and> \<not> includes_str err (js ''401'') \<and> \<not> includes_str err (js ''Unauthorized'')
        \<and> \<not> includes_str err (js ''403'') \<and> \<not> includes_str err (js ''Forbidden'')
        \<and> \<not> includes_str err (js ''404'')
        \<and> \<not> includes_str err (js ''timeout'') \<and> \<not> includes_str err (js ''ConnectionError'')
        \<and> includes_str err (js ''ImportError'') \<longrightarrow>
      analysis_error_message code err =
        js ''Python script import error. Please check script dependencies.'')
   \<and> (\<not> includes_str err (js ''ModuleNotFoundError'')
        \<and> \<not> includes_str err (js ''401'') \<and> \<not> includes_str err (js ''Unauthorized'')
        \<and> \<not> includes_str err (js ''403'') \<and> \<not> includes_str err (js ''Forbidden'')
        \<and> \<not> includes_str err (js ''404'')
        \<and> \<not> includes_str err (js ''timeout'') \<and> \<not> includes_str err (js ''ConnectionError'')
        \<and> \<not> includes_str err (js ''ImportError'') \<and> err \<noteq> [] \<longrightarrow>
      analysis_error_message code err = js ''Python script error: '' @ take 200 err
      \<and> length (analysis_error_message code err) \<le> 221)
   \<and> (err = [] \<longrightarrow>
      analysis_error_message code err = js ''Analysis failed with exit code '' @ show_code code)"
proof (intro conjI impI)
  assume "includes_str err (js ''ModuleNotFoundError'')"
  then show "analysis_error_message code err =
        (case missingModule err of
           Some m \<Rightarrow>
             js ''Missing Python package: '' @ m @ js ''. Please install it with: pip3 install '' @ m
         | None \<Rightarrow> js ''Missing Python packages. Please install required dependencies.'')"
    by (simp add: analysis_error_message_def)
next
  assume a: "includes_str err (js ''ModuleNotFoundError'')
        \<and> err = pre @ js ''No module named '' @ [39] @ name @ [39] @ post
        \<and> \<not> includes_str (pre @ js ''No module named '') (js ''No module named '' @ [39])
        \<and> name \<noteq> [] \<and> 39 \<notin> set name"
  then have m: "includes_str err (js ''ModuleNotFoundError'')"
    and e: "err = pre @ js ''No module named '' @ [39] @ name @ [39] @ post"
    and f: "\<not> includes_str (pre @ js ''No module named '') (js ''No module named '' @ [39])"
    and n: "name \<noteq> []" and q: "39 \<notin> set name"
    by blast+
  have "missingModule err = Some name"
    unfolding e using f n q by (rule missingModule_first)
  with m show "analysis_error_message code err =
        js ''Missing Python package: '' @ name @ js ''. Please install it with: pip3 install '' @ name"
    by (simp add: analysis_error_message_def)
next
  assume "\<not> includes_str err (js ''ModuleNotFoundError'')
        \<and> (includes_str err (js ''401'') \<or> includes_str err (js ''Unauthorized''))"
  then show "analysis_error_message code err =
        js ''Canvas API authentication failed. Please check your API token.''"
    by (auto simp add: analysis_error_message_def)
next
  assume a: "\<not> includes_str err (js ''ModuleNotFoundError'')
        \<and> includes_str err (js ''401 Unauthorized'')"
  have "js ''401 Unauthorized'' = js ''401'' @ js '' Unauthorized''" by simp
  with a have "includes_str err (js ''401'' @ js '' Unauthorized'')" by simp
  then have "includes_str err (js ''401'')" by (rule includes_str_longer)
  with a show "analysis_error_message code err =
        js ''Canvas API authentication failed. Please check your API token.''"
    by (simp add: analysis_error_message_def)
next
  assume "\<not> includes_str err (js ''ModuleNotFoundError'')
        \<and> \<not> includes_str err (js ''401'') \<and> \<not> includes_str err (js ''Unauthorized'')
        \<and> (includes_str err (js ''403'') \<or> includes_str err (js ''Forbidden''))"
  then show "analysis_error_message code err =
        js ''Canvas API access forbidden. Please check your API token permissions.''"
    by (auto simp add: analysis_error_message_def)
next
  assume "\<not> includes_str err (js ''ModuleNotFoundError'')
        \<and> \<not> includes_str err (js ''401'') \<and> \<not> includes_str err (js ''Unauthorized'')
        \<and> \<not> includes_str err (js ''403'') \<and> \<not> includes_str err (js ''Forbidden'')
        \<and> includes_str err (js ''404'')"
  then show "analysis_error_message code err =
        js ''Course not found or API endpoint invalid. Please check the course ID.''"
    by (simp add: analysis_error_message_def)
next
  assume "\<not> includes_str err (js ''ModuleNotFoundError'')
        \<and> \<not> includes_str err (js ''401'') \<and> \<not> includes_str err (js ''Unauthorized'')
        \<and> \<not> includes_str err (js ''403'') \<and> \<not> includes_str err (js ''Forbidden'')
        \<and> \<not> includes_str err (js ''404'')
        \<and> (includes_str err (js ''timeout'') \<or> includes_str err (js ''ConnectionError''))"
  then show "analysis_error_message code err =
        js ''Network timeout connecting to Canvas. Please try again.''"
    by (auto simp add: analysis_error_message_def)
next
  assume "\<not> includes_str err (js ''ModuleNotFoundError'')
        \<and> \<not> includes_str err (js ''401'') \<and> \<not> includes_str err (js ''Unauthorized'')
        \<and> \<not> includes_str err (js ''403'') \<and> \<not> includes_str err (js ''Forbidden'')
        \<and> \<not> includes_str err (js ''404'')
        \<and> \<not> includes_str err (js ''timeout'') \<and> \<not> includes_str err (js ''ConnectionError'')
        \<and> includes_str err (js ''ImportError'')"
  then show "analysis_error_message code err =
        js ''Python script import error. Please check script dependencies.''"
    by (simp add: analysis_error_message_def)
next
  assume a: "\<not> includes_str err (js ''ModuleNotFoundError'')
        \<and> \<not> includes_str err (js ''401'') \<and> \<not> includes_str err (js ''Unauthorized'')
        \<and> \<not> includes_str err (js ''403'') \<and> \<not> includes_str err (js ''Forbidden'')
        \<and> \<not> includes_str err (js ''404'')
        \<and> \<not> includes_str err (js ''timeout'') \<and> \<not> includes_str err (js ''ConnectionError'')
        \<and> \<not> includes_str err (js ''ImportError'') \<and> err \<noteq> []"
  then show g: "analysis_error_message code err = js ''Python script error: '' @ take 200 err"
    by (simp add: analysis_error_message_def substring0_def)
  show "length (analysis_error_message code err) \<le> 221"
    by (simp add: g)
next
  assume "err = []"
  then show "analysis_error_message code err
               = js ''Analysis failed with exit code '' @ show_code code"
    by (simp add: analysis_error_message_def)
qed

theorem classification_priority_witness:
  "\<not> includes_str unauthorized_line (js ''ModuleNotFoundError'')
   \<and> includes_str unauthorized_line (js ''401 Unauthorized'')
   \<and> analysis_error_message (Some 1) unauthorized_line
       = js ''Canvas API authentication failed. Please check your API token.''
   \<and> includes_str import_failure (js ''ImportError'')
   \<and> analysis_error_message (Some 1) import_failure
       = js ''Python script import error. Please check script dependencies.''
   \<and> includes_str shadowed_401 (js ''ModuleNotFoundError'')
   \<and> analysis_error_message (Some 1) shadowed_401
       = js ''Missing Python package: requests. Please install it with: pip3 install requests''
   \<and> analysis_error_message (Some 1) (js ''Traceback: boom'')
       = js ''Python script error: Traceback: boom''
   \<and> analysis_error_message (Some 1) [] = js ''Analysis failed with exit code 1''"
proof -
  have u1: "\<not> includes_str unauthorized_line (js ''ModuleNotFoundError'')"
    by (simp add: unauthorized_line_def)
  have u2: "includes_str unauthorized_line (js ''401 Unauthorized'')"
    by (simp add: unauthorized_line_def)
  have a: "analysis_error_message (Some 1) unauthorized_line
             = js ''Canvas API authentication failed. Please check your API token.''"
    using u1 u2
    by (intro classification_priority
          [of unauthorized_line "Some 1", THEN conjunct2, THEN conjunct2, THEN conjunct2,
           THEN conjunct1, THEN mp] conjI)
  have i9: "includes_str import_failure (js ''ImportError'')"
    by (simp add: import_failure_def)
  have i: "\<not> includes_str import_failure (js ''ModuleNotFoundError'')
        \<and> \<not> includes_str import_failure (js ''401'')
        \<and> \<not> includes_str import_failure (js ''Unauthorized'')
        \<and> \<not> includes_str import_failure (js ''403'')
        \<and> \<not> includes_str import_failure (js ''Forbidden'')
        \<and> \<not> includes_str import_failure (js ''404'')
        \<and> \<not> includes_str import_failure (js ''timeout'')
        \<and> \<not> includes_str import_failure (js ''ConnectionError'')
        \<and> includes_str import_failure (js ''ImportError'')"
    by (simp add: import_failure_def)
  have b: "analysis_error_message (Some 1) import_failure
             = js ''Python script import error. Please check script dependencies.''"
    using i
    by (rule classification_priority
          [of import_failure "Some 1", THEN conjunct2, THEN conjunct2, THEN conjunct2,
           THEN conjunct2, THEN conjunct2, THEN conjunct2, THEN conjunct2, THEN conjunct1,
           THEN mp])
  have s1: "includes_str shadowed_401 (js ''ModuleNotFoundError'')"
    by (simp add: shadowed_401_def)
  have s: "includes_str shadowed_401 (js ''ModuleNotFoundError'')
        \<and> shadowed_401 = js ''ModuleNotFoundError: '' @ js ''No module named '' @ [39]
                            @ js ''requests'' @ [39] @ js '' (after 401 Unauthorized)''
        \<and> \<not> includes_str (js ''ModuleNotFoundError: '' @ js ''No module named '')
               (js ''No module named '' @ [39])
        \<and> js ''requests'' \<noteq> [] \<and> 39 \<notin> set (js ''requests'')"
    by (simp add: shadowed_401_def)
  have "analysis_error_message (Some 1) shadowed_401
          = js ''Missing Python package: '' @ js ''requests''
              @ js ''. Please install it with: pip3 install '' @ js ''requests''"
    using s
    by (rule classification_priority
          [of shadowed_401 "Some 1" "js ''ModuleNotFoundError: ''" "js ''requests''"
              "js '' (after 401 Unauthorized)''", THEN conjunct2, THEN conjunct1, THEN mp])
  then have c: "analysis_error_message (Some 1) shadowed_401
          = js ''Missing Python package: requests. Please install it with: pip3 install requests''"
    by simp
  have g: "\<not> includes_str (js ''Traceback: boom'') (js ''ModuleNotFoundError'')
        \<and> \<not> includes_str (js ''Traceback: boom'') (js ''401'')
        \<and> \<not> includes_str (js ''Traceback: boom'') (js ''Unauthorized'')
        \<and> \<not> includes_str (js ''Traceback: boom'') (js ''403'')
        \<and> \<not> includes_str (js ''Traceback: boom'') (js ''Forbidden'')
        \<and> \<not> includes_str (js ''Traceback: boom'') (js ''404'')
        \<and> \<not> includes_str (js ''Traceback: boom'') (js ''timeout'')
        \<and> \<not> includes_str (js ''Traceback: boom'') (js ''ConnectionError'')
        \<and> \<not> includes_str (js ''Traceback: boom'') (js ''ImportError'')
        \<and> js ''Traceback: boom'' \<noteq> []"
    by simp
  have "analysis_error_message (Some 1) (js ''Traceback: boom'')
          = js ''Python script error: '' @ take 200 (js ''Traceback: boom'')
        \<and> length (analysis_error_message (Some 1) (js ''Traceback: boom'')) \<le> 221"
    using g
    by (rule classification_priority
          [of "js ''Traceback: boom''" "Some 1", THEN conjunct2, THEN conjunct2, THEN conjunct2,
           THEN conjunct2, THEN conjunct2, THEN conjunct2, THEN conjunct2, THEN conjunct2,
           THEN conjunct1, THEN mp])
  then have d: "analysis_error_message (Some 1) (js ''Traceback: boom'')
          = js ''Python script error: Traceback: boom''"
    by simp
  have "analysis_error_message (Some 1) []
          = js ''Analysis failed with exit code '' @ show_code (Some 1)"
    by (rule classification_priority
          [of "[]" "Some 1", THEN conjunct2, THEN conjunct2, THEN conjunct2,
           THEN conjunct2, THEN conjunct2, THEN conjunct2, THEN conjunct2, THEN conjunct2,
           THEN conjunct2, THEN mp]) simp
  then have e: "analysis_error_message (Some 1) [] = js ''Analysis failed with exit code 1''"
    by (simp add: show_int_def show_nat.simps)
  show ?thesis
    by (intro conjI) (fact u1 u2 a i9 b s1 c d e)+
qed

text \<open>
  The classifier of the claim against the code. This stderr holds none of the patterns
  of the five named kinds, so the claim makes it a generic worker error that carries a
  copy of stderr; the code answers with the import error, which carries none. And a
  stderr that contains \<^verbatim>\<open>401 Unauthorized\<close> after \<^verbatim>\<open>ModuleNotFoundError\<close> is a
  missing dependency, not an authentication failure.
\<close>

theorem import_error_counterexample:
  "\<not> includes_str import_failure (js ''ModuleNotFoundError'')
   \<and> \<not> includes_str import_failure (js ''401'')
   \<and> \<not> includes_str import_failure (js ''Unauthorized'')
   \<and> \<not> includes_str import_failure (js ''403'')
   \<and> \<not> includes_str import_failure (js ''Forbidden'')
   \<and> \<not> includes_str import_failure (js ''404'')
   \<and> \<not> includes_str import_failure (js ''timeout'')
   \<and> \<not> includes_str import_failure (js ''ConnectionError'')
   \<and> analysis_error_message (Some 1) import_failure
       = js ''Python script import error. Please check script dependencies.''
   \<and> \<not> includes_str (analysis_error_message (Some 1) import_failure) import_failure
   \<and> includes_str shadowed_401 (js ''401 Unauthorized'')
   \<and> analysis_error_message (Some 1) shadowed_401
       = js ''Missing Python package: requests. Please install it with: pip3 install requests''"
  by (simp add: import_failure_def analysis_error_message_def shadowed_401_def
      missingModule_def quoted_name_def)

subsection \<open>An empty batch of approved actions\<close>

text \<open>
  What does hold for an empty batch: in the V3 revision the route \<^verbatim>\<open>/execute-approved\<close>
  answers a request whose \<^verbatim>\<open>approvedActions\<close> is an empty array without calling
  \<^verbatim>\<open>executeApprovedActions\<close>. It has no effect (nothing is staged, no worker process is
  spawned), and when task id and course id are present the answer is the success
  \<^verbatim>\<open>No actions were selected for execution.\<close>
\<close>

lemma empty_batch_answered_by_route_v3:
  "did (execute_approved_route_v3 h taskId courseId (JArr []) ch) = []"
  "disk_end (execute_approved_route_v3 h taskId courseId (JArr []) ch) = disk h"
  "\<not> absent taskId \<Longrightarrow> \<not> absent courseId \<Longrightarrow>
     reply (execute_approved_route_v3 h taskId courseId (JArr []) ch) = Some no_selection"
  by (simp_all add: execute_approved_route_v3_def no_selection_def)

text \<open>
  C2 at the deployed route. On the sample host a request with an empty array of
  approved actions is handed to \<^verbatim>\<open>executeApprovedActions\<close>, which stages the empty
  batch and spawns the worker; called with an empty array, the function of the V3
  revision spawns the worker as well.
\<close>

theorem empty_batch_reaches_the_worker:
  "list_ex is_spawn
     (did (execute_approved_route sample_host find_duplicate_pages (Some (js ''42'')) (JArr [])
             (Closes (Some 0) [] [])))
   \<and> spawned (executeApprovedActions sample_host find_duplicate_pages (Some (js ''42'')) (JArr [])
                (Closes (Some 0) [] []))
   \<and> spawned (executeApprovedActions_v3 sample_host find_duplicate_pages (Some (js ''42'')) (JArr [])
                (Closes (Some 0) [] []))"
  by (simp add: executeApprovedActions_def executeApprovedActions_v3_def execute_approved_route_def
      scriptName_def QA_TASKS_v3_def find_duplicate_pages_def sample_host_def sample_disk_def
      sample_script_def staged_name_def show_nat.simps path_join_def path_normalize_def
      path_dirname_def ensure_dir_def existsSync_def mkdirSync_def writeFileSync_def
      spawned_def is_spawn_def Let_def split: prod.splits)

subsection \<open>The events an execution has no listener for\<close>

text \<open>
  What does hold for the staged file: whenever the worker was spawned and closes, with
  whatever exit code, and the operating system lets the file be removed, the file is
  gone when the call has settled.
\<close>

lemma staged_file_removed_on_close:
  assumes "spawned (executeApprovedActions h taskId courseId approvedActions (Closes code out err))"
    and "path_join [dirname h, js ''temp'', staged_name courseId (clock h)] \<notin> pinned (disk h)"
  shows "files (disk_after (executeApprovedActions h taskId courseId approvedActions
                              (Closes code out err)))
           (path_join [dirname h, js ''temp'', staged_name courseId (clock h)]) = None"
proof -
  let ?F = "path_join [dirname h, js ''temp'', staged_name courseId (clock h)]"
  let ?r = "executeApprovedActions h taskId courseId approvedActions (Closes code out err)"
  from spawned_execution [OF assms(1)] obtain d2 where
    p: "pinned d2 = pinned (disk h)"
    and f: "files d2 ?F = Some (Stringified approvedActions)"
    and d: "disk_after ?r
              = snd (snd (execution_events approvedActions ?F d2 (Closes code out err)))"
    by blast
  show ?thesis
    unfolding d using assms(2) p f by (simp add: close_listener_def unlinkSync_def)
qed

text \<open>
  C1 at a spawn failure. On the sample host the worker cannot be started
  (\<^verbatim>\<open>ENOENT\<close>). The call has staged the approved actions and spawned; the \<^verbatim>\<open>'error'\<close>
  event finds no listener and is thrown, \<^verbatim>\<open>unlinkSync\<close> is never called, the promise
  stays pending, and the staged file is still on the disk.
\<close>

theorem staged_file_survives_spawn_failure:
  "files (disk_after (executeApprovedActions sample_host find_duplicate_pages (Some (js ''42''))
                        (JArr [sample_action])
                        (SpawnFails (js ''ENOENT'') (js ''spawn python3 ENOENT''))))
     sample_staged
     = Some (Stringified (JArr [sample_action]))
   \<and> settled (executeApprovedActions sample_host find_duplicate_pages (Some (js ''42''))
                 (JArr [sample_action])
                 (SpawnFails (js ''ENOENT'') (js ''spawn python3 ENOENT'')))
       = Pending
   \<and> effects (executeApprovedActions sample_host find_duplicate_pages (Some (js ''42''))
                 (JArr [sample_action])
                 (SpawnFails (js ''ENOENT'') (js ''spawn python3 ENOENT'')))
       = [MkdirSync (js ''/app/temp''), WriteFileSync sample_staged,
          Spawn (js ''python3'')
            (map Some [sample_script, js ''--canvas-url'', js ''aculeo.test.instructure.com'',
                       js ''--api-token'', js ''secret'', js ''--course-id'', js ''42'',
                       js ''--execute-approved'', sample_staged]),
          UncaughtError]"
proof -
  have ne: "JArr [sample_action] \<noteq> JUndefined" by simp
  note e = sample_host_execution
             [OF ne, of "SpawnFails (js ''ENOENT'') (js ''spawn python3 ENOENT'')"]
    and s = sample_host_execution_settled
             [OF ne, of "SpawnFails (js ''ENOENT'') (js ''spawn python3 ENOENT'')"]
    and d = sample_host_execution_disk
             [OF ne, of "SpawnFails (js ''ENOENT'') (js ''spawn python3 ENOENT'')"]
  show ?thesis
    unfolding e s d by (simp add: staged_disk_def)
qed

text \<open>
  What does hold for the deadline: an analysis that is still running after 300000 ms is
  sent \<^verbatim>\<open>SIGTERM\<close> and rejected with the timeout error, whatever it has printed and
  however it closes afterwards, in the deployed file and in the V3 revision.
\<close>

lemma analysis_times_out:
  assumes "spawned (analyzeTask h taskId courseId (Overruns out err later))"
  shows "settled (analyzeTask h taskId courseId (Overruns out err later))
           = Rejected analysis_timeout"
    and "Kill (js ''SIGTERM'') \<in> set (effects (analyzeTask h taskId courseId (Overruns out err later)))"
proof -
  obtain p es where e: "analysis_events h (Overruns out err later) = (p, es)"
    by (cases "analysis_events h (Overruns out err later)")
  have "p = Rejected analysis_timeout \<and> Kill (js ''SIGTERM'') \<in> set es"
    using e by (cases later) auto
  with assms e show "settled (analyzeTask h taskId courseId (Overruns out err later))
           = Rejected analysis_timeout"
    and "Kill (js ''SIGTERM'') \<in> set (effects (analyzeTask h taskId courseId (Overruns out err later)))"
    by (auto simp add: analyzeTask_def Let_def spawned_def is_spawn_def split: if_splits)
qed

lemma analysis_times_out_v3:
  assumes "spawned (analyzeTask_v3 h taskId courseId (Overruns out err later))"
  shows "settled (analyzeTask_v3 h taskId courseId (Overruns out err later))
           = Rejected analysis_timeout_v3"
    and "Kill (js ''SIGTERM'') \<in> set (effects (analyzeTask_v3 h taskId courseId (Overruns out err later)))"
proof -
  obtain p es where e: "analysis_events_v3 (Overruns out err later) = (p, es)"
    by (cases "analysis_events_v3 (Overruns out err later)")
  have "p = Rejected analysis_timeout_v3 \<and> Kill (js ''SIGTERM'') \<in> set es"
    using e by (cases later) auto
  with assms e show "settled (analyzeTask_v3 h taskId courseId (Overruns out err later))
           = Rejected analysis_timeout_v3"
    and "Kill (js ''SIGTERM'') \<in> set (effects (analyzeTask_v3 h taskId courseId (Overruns out err later)))"
    by (auto simp add: analyzeTask_v3_def Let_def spawned_def is_spawn_def
        split: if_splits option.splits)
qed

text \<open>
  C3 in execute mode. On the sample host the worker is still running after 300000 ms and
  never closes. The call has set no timer and sends no signal: its effects end with the
  spawn, and the promise stays pending.
\<close>

theorem execution_has_no_deadline:
  "settled (executeApprovedActions sample_host find_duplicate_pages (Some (js ''42''))
              (JArr [sample_action]) (Overruns (js ''working'') [] None))
     = Pending
   \<and> effects (executeApprovedActions sample_host find_duplicate_pages (Some (js ''42''))
                 (JArr [sample_action]) (Overruns (js ''working'') [] None))
       = [MkdirSync (js ''/app/temp''), WriteFileSync sample_staged,
          Spawn (js ''python3'')
            (map Some [sample_script, js ''--canvas-url'', js ''aculeo.test.instructure.com'',
                       js ''--api-token'', js ''secret'', js ''--course-id'', js ''42'',
                       js ''--execute-approved'', sample_staged])]"
proof -
  have ne: "JArr [sample_action] \<noteq> JUndefined" by simp
  note e = sample_host_execution [OF ne, of "Overruns (js ''working'') [] None"]
    and s = sample_host_execution_settled [OF ne, of "Overruns (js ''working'') [] None"]
  show ?thesis
    unfolding e s by simp
qed

subsection \<open>What a failure shows of stderr\<close>

text \<open>
  What does hold for stderr: the generic message of a failed analysis carries at most
  the first 200 code units of it (300 and an ellipsis in the V3 revision).
\<close>

lemma generic_analysis_error_bounded:
  "length (js ''Python script error: '' @ substring0 err 200) \<le> 221"
  "length (js ''The script encountered an error: '' @ substring0 err 300 @ js ''...'') \<le> 336"
  by (simp_all add: substring0_def)

text \<open>
  C7 in execute mode. On the sample host the worker exits with code 1; the call is
  rejected with a message that holds all of stderr, however long it is, and the route
  sends that message to the caller.
\<close>

theorem execution_failure_shows_all_of_stderr:
  "settled (executeApprovedActions sample_host find_duplicate_pages (Some (js ''42''))
              (JArr [sample_action]) (Closes (Some 1) out err))
     = Rejected (Error (js ''Execution failed: '' @ err))
   \<and> reply (execute_approved_route sample_host find_duplicate_pages (Some (js ''42''))
               (JArr [sample_action]) (Closes (Some 1) out err))
       = Some (200, JObj [(js ''success'', JBool False),
                          (js ''error'', JStr (js ''Execution failed: '' @ err))])
   \<and> length (js ''Execution failed: '' @ err) = 18 + length err"
proof -
  have ne: "JArr [sample_action] \<noteq> JUndefined" by simp
  note s = sample_host_execution_settled [OF ne, of "Closes (Some 1) out err"]
  have r: "settled (executeApprovedActions sample_host find_duplicate_pages (Some (js ''42''))
                      (JArr [sample_action]) (Closes (Some 1) out err))
             = Rejected (Error (js ''Execution failed: '' @ err))"
    unfolding s by (simp add: close_listener_def execution_on_close_def split: option.splits)
  show ?thesis
    unfolding execute_approved_route_def Let_def r by (simp add: error_message_def)
qed

subsection \<open>Validation before the spawn\<close>

text \<open>
  What does hold for validation: the routes \<^verbatim>\<open>/execute\<close> of both revisions and the
  route \<^verbatim>\<open>/execute-approved\<close> of the V3 revision answer a request without a course id
  with an error and have no effect; and all four functions reject, without any effect,
  when the credential is not in the environment.
\<close>

lemma course_id_validated:
  assumes "absent courseId"
  shows "did (execute_route h taskId courseId ch) = []"
    and "did (execute_route_v3 h taskId courseId ch) = []"
    and "did (execute_approved_route_v3 h taskId courseId approvedActions ch) = []"
    and "\<exists>body. reply (execute_route h taskId courseId ch) = Some (500, body)"
    and "\<exists>body. reply (execute_route_v3 h taskId courseId ch) = Some (500, body)"
    and "\<exists>body. reply (execute_approved_route_v3 h taskId courseId approvedActions ch)
                  = Some (500, body)"
  using assms
  by (auto simp add: execute_route_def execute_route_v3_def execute_approved_route_v3_def
      analysis_failure_def analysis_failure_v3_def execution_failure_v3_def)

lemma credential_validated:
  assumes "env_or (CANVAS_API_TOKEN h) [] = []"
  shows "effects (analyzeTask h taskId courseId ch) = []"
    and "effects (analyzeTask_v3 h taskId courseId ch) = []"
    and "effects (executeApprovedActions h taskId courseId approvedActions ch) = []"
    and "effects (executeApprovedActions_v3 h taskId courseId approvedActions ch) = []"
    and "\<exists>e. settled (analyzeTask h taskId courseId ch) = Rejected e"
    and "\<exists>e. settled (analyzeTask_v3 h taskId courseId ch) = Rejected e"
    and "\<exists>e. settled (executeApprovedActions h taskId courseId approvedActions ch) = Rejected e"
    and "\<exists>e. settled (executeApprovedActions_v3 h taskId courseId approvedActions ch) = Rejected e"
  using assms
  by (auto simp add: analyzeTask_def analyzeTask_v3_def executeApprovedActions_def
      executeApprovedActions_v3_def Let_def split: option.splits)

text \<open>
  C8 at the deployed route \<^verbatim>\<open>/execute-approved\<close>. On the sample host a request without
  a course id is not refused: the batch is staged under the name
  \<^verbatim>\<open>approved_actions_undefined_...\<close> and the worker is spawned with \<^verbatim>\<open>undefined\<close> for
  the course id.
\<close>

theorem missing_course_id_reaches_the_worker:
  "did (execute_approved_route sample_host find_duplicate_pages None (JArr [sample_action])
          (Closes (Some 0) [] []))
     = [MkdirSync (js ''/app/temp''), WriteFileSync sample_staged_undefined,
        Spawn (js ''python3'')
          ([Some sample_script, Some (js ''--canvas-url''), Some (js ''aculeo.test.instructure.com''),
            Some (js ''--api-token''), Some (js ''secret''), Some (js ''--course-id''), None,
            Some (js ''--execute-approved''), Some sample_staged_undefined]),
        UnlinkSync sample_staged_undefined]
   \<and> absent None"
  by (simp add: execute_approved_route_def executeApprovedActions_def find_duplicate_pages_def
      sample_host_def sample_disk_def sample_script_def sample_staged_undefined_def
      staged_name_def show_nat.simps path_join_def path_normalize_def path_dirname_def
      ensure_dir_def existsSync_def Let_def mkdirSync_def
      writeFileSync_def close_listener_def unlinkSync_def sample_action_def)

end
